theory Spec2Isabelle
  imports Complex_Main
begin

section \<open>Python values handled by \<^verbatim>\<open>update-cloudfront-cert.py\<close>\<close>

text \<open>
  The script \<^verbatim>\<open>infrastructure/update-cloudfront-cert.py\<close> moves JSON documents between
  three invocations of the \<^verbatim>\<open>aws\<close> command line tool. Every value it holds is either a
  Python \<^verbatim>\<open>str\<close> or something \<^verbatim>\<open>json.loads\<close> returned: \<^verbatim>\<open>None\<close>, a \<^verbatim>\<open>bool\<close>, an
  \<^verbatim>\<open>int\<close>, a (finite) \<^verbatim>\<open>float\<close>, a \<^verbatim>\<open>str\<close>, a \<^verbatim>\<open>list\<close> or a \<^verbatim>\<open>dict\<close> with string keys.
  A \<^verbatim>\<open>dict\<close> keeps its keys in insertion order, so it is an association list.
\<close>

datatype json =
    JNull
  | JBool bool
  | JInt int
  | JFloat real
  | JStr string
  | JList "json list"
  | JDict "(string \<times> json) list"

text \<open>
  An exception of the run. \<^verbatim>\<open>subprocess.CalledProcessError\<close> carries \<^verbatim>\<open>returncode\<close>,
  \<^verbatim>\<open>cmd\<close>, \<^verbatim>\<open>output\<close> and \<^verbatim>\<open>stderr\<close>; it is the only exception class the script tells
  apart. Every other exception is its class name and its message \<^verbatim>\<open>str(e)\<close>. The
  messages below are worded as CPython words them; the wording differs between versions
  and no property depends on it.
\<close>

datatype exn =
    CalledProcessError int "string list" string string
  | OtherException string string

text \<open>The name Python prints for the type of a value.\<close>

fun type_name :: "json \<Rightarrow> string" where
  "type_name JNull = ''NoneType''"
| "type_name (JBool b) = ''bool''"
| "type_name (JInt i) = ''int''"
| "type_name (JFloat x) = ''float''"
| "type_name (JStr s) = ''str''"
| "type_name (JList xs) = ''list''"
| "type_name (JDict kvs) = ''dict''"

text \<open>
  \<^verbatim>\<open>obj[key]\<close> with a string key: a \<^verbatim>\<open>dict\<close> returns the value or raises \<^verbatim>\<open>KeyError\<close>
  (whose message is the \<^verbatim>\<open>repr\<close> of the key; the keys of the script are plain
  identifiers, so that is the key between single quotes); a \<^verbatim>\<open>list\<close> or a \<^verbatim>\<open>str\<close>
  wants an integer index; nothing else can be subscripted.
\<close>

fun subscript :: "json \<Rightarrow> string \<Rightarrow> exn + json" where
  "subscript (JDict kvs) k =
     (case map_of kvs k of
        Some v \<Rightarrow> Inr v
      | None \<Rightarrow> Inl (OtherException ''KeyError'' ([CHR 0x27] @ k @ [CHR 0x27])))"
| "subscript (JList xs) k =
     Inl (OtherException ''TypeError'' ''list indices must be integers or slices, not str'')"
| "subscript (JStr s) k =
     Inl (OtherException ''TypeError'' ''string indices must be integers'')"
| "subscript v k =
     Inl (OtherException ''TypeError''
            ([CHR 0x27] @ type_name v @ [CHR 0x27] @ '' object is not subscriptable''))"

text \<open>
  \<^verbatim>\<open>d[key] = value\<close> on a \<^verbatim>\<open>dict\<close>: a key already there keeps its position and
  gets the new value, a new key goes to the end.
\<close>

fun dict_set :: "string \<Rightarrow> json \<Rightarrow> (string \<times> json) list \<Rightarrow> (string \<times> json) list" where
  "dict_set k v [] = [(k, v)]"
| "dict_set k v ((k', v') # kvs) =
     (if k' = k then (k, v) # kvs else (k', v') # dict_set k v kvs)"

text \<open>
  \<^verbatim>\<open>obj[key] = value\<close> with a string key: only a \<^verbatim>\<open>dict\<close> accepts it.
\<close>

fun setitem :: "json \<Rightarrow> string \<Rightarrow> json \<Rightarrow> exn + json" where
  "setitem (JDict kvs) k v = Inr (JDict (dict_set k v kvs))"
| "setitem (JList xs) k v =
     Inl (OtherException ''TypeError'' ''list indices must be integers or slices, not str'')"
| "setitem obj k v =
     Inl (OtherException ''TypeError''
            ([CHR 0x27] @ type_name obj @ [CHR 0x27] @ '' object does not support item assignment''))"

text \<open>Truth value of an object, as \<^verbatim>\<open>not x\<close> and \<^verbatim>\<open>if x\<close> test it.\<close>

fun truthy :: "json \<Rightarrow> bool" where
  "truthy JNull = False"
| "truthy (JBool b) = b"
| "truthy (JInt i) = (i \<noteq> 0)"
| "truthy (JFloat x) = (x \<noteq> 0)"
| "truthy (JStr s) = (s \<noteq> [])"
| "truthy (JList xs) = (xs \<noteq> [])"
| "truthy (JDict kvs) = (kvs \<noteq> [])"

text \<open>
  The elements a \<^verbatim>\<open>for\<close> loop visits: the items of a \<^verbatim>\<open>list\<close>, the keys of a \<^verbatim>\<open>dict\<close>,
  the characters of a \<^verbatim>\<open>str\<close>; other values are not iterable.
\<close>

fun iterate :: "json \<Rightarrow> exn + json list" where
  "iterate (JList xs) = Inr xs"
| "iterate (JDict kvs) = Inr (map (\<lambda>kv. JStr (fst kv)) kvs)"
| "iterate (JStr s) = Inr (map (\<lambda>c. JStr [c]) s)"
| "iterate v =
     Inl (OtherException ''TypeError''
            ([CHR 0x27] @ type_name v @ [CHR 0x27] @ '' object is not iterable''))"

section \<open>Configuration\<close>

definition DISTRIBUTION_COMMENT :: string where
  "DISTRIBUTION_COMMENT = ''sharespace frontend distribution''"

definition DOMAIN_NAMES :: "string list" where
  "DOMAIN_NAMES = [''itsonlycastlesburning.com'', ''*.itsonlycastlesburning.com'']"

section \<open>The mutation step (lines 67 to 78)\<close>

text \<open>The two dict displays assigned into the configuration.\<close>

definition viewer_certificate :: "string \<Rightarrow> json" where
  "viewer_certificate CERT_ARN =
     JDict [(''ACMCertificateArn'', JStr CERT_ARN),
            (''SSLSupportMethod'', JStr ''sni-only''),
            (''MinimumProtocolVersion'', JStr ''TLSv1.2_2021''),
            (''CertificateSource'', JStr ''acm'')]"

definition aliases :: "string list \<Rightarrow> json" where
  "aliases domain_names =
     JDict [(''Quantity'', JInt (int (length domain_names))),
            (''Items'', JList (map JStr domain_names))]"

text \<open>
  \<^verbatim>\<open>config['ViewerCertificate'] = {...}\<close> and then \<^verbatim>\<open>config['Aliases'] = {...}\<close>.
  Neither statement sits in a \<^verbatim>\<open>try\<close> block: on a \<^verbatim>\<open>config\<close> that is not a \<^verbatim>\<open>dict\<close>
  the first one raises and the exception ends the program.
\<close>

definition mutate_config :: "string \<Rightarrow> string list \<Rightarrow> json \<Rightarrow> exn + json" where
  "mutate_config CERT_ARN domain_names config =
     (case setitem config ''ViewerCertificate'' (viewer_certificate CERT_ARN) of
        Inl e \<Rightarrow> Inl e
      | Inr config1 \<Rightarrow> setitem config1 ''Aliases'' (aliases domain_names))"

text \<open>The keys of a document that the mutation step is not meant to touch.\<close>

definition unrelated :: "string \<times> json \<Rightarrow> bool" where
  "unrelated kv = (fst kv \<noteq> ''ViewerCertificate'' \<and> fst kv \<noteq> ''Aliases'')"

section \<open>What the script prints\<close>

text \<open>
  A printed line is the sequence of the pieces of its f-string: literal text, and
  formatted values (\<open>Val v\<close> stands for the text \<^verbatim>\<open>str(v)\<close>). \<open>Signal n\<close> stands for the
  text by which \<^verbatim>\<open>CalledProcessError.__str__\<close> names signal \<open>n\<close>. Strings are sequences of
  bytes here, so a symbol outside ASCII is written as its UTF-8 encoding.
\<close>

datatype piece = Lit string | Val json | Signal nat

definition cross_mark :: string where
  "cross_mark = [CHR 0xE2, CHR 0x9D, CHR 0x8C]"

definition check_mark :: string where
  "check_mark = [CHR 0xE2, CHR 0x9C, CHR 0x85]"

definition wrench :: string where
  "wrench = [CHR 0xF0, CHR 0x9F, CHR 0x94, CHR 0xA7]"

definition rocket :: string where
  "rocket = [CHR 0xF0, CHR 0x9F, CHR 0x9A, CHR 0x80]"

definition bar_chart :: string where
  "bar_chart = [CHR 0xF0, CHR 0x9F, CHR 0x93, CHR 0x8A]"

definition hourglass :: string where
  "hourglass = [CHR 0xE2, CHR 0x8F, CHR 0xB3]"

definition memo :: string where
  "memo = [CHR 0xF0, CHR 0x9F, CHR 0x93, CHR 0x9D]"

definition rightwards_arrow :: string where
  "rightwards_arrow = [CHR 0xE2, CHR 0x86, CHR 0x92]"

definition apostrophe :: string where
  "apostrophe = [CHR 0x27]"

text \<open>
  \<^verbatim>\<open>str(e)\<close>. For a \<^verbatim>\<open>CalledProcessError\<close> it is built from the command and the return
  code only; the captured \<^verbatim>\<open>output\<close> and \<^verbatim>\<open>stderr\<close> are attributes of the exception
  and no part of its message.
\<close>

fun str_exn :: "exn \<Rightarrow> piece list" where
  "str_exn (CalledProcessError returncode cmd out err) =
     (if returncode < 0
      then [Lit (''Command '' @ apostrophe), Val (JList (map JStr cmd)),
            Lit (apostrophe @ '' died with ''), Signal (nat (- returncode)), Lit ''.'']
      else [Lit (''Command '' @ apostrophe), Val (JList (map JStr cmd)),
            Lit (apostrophe @ '' returned non-zero exit status ''), Val (JInt returncode), Lit ''.''])"
| "str_exn (OtherException cls msg) = [Lit msg]"

text \<open>\<^verbatim>\<open>sep.join(xs)\<close>.\<close>

fun join :: "string \<Rightarrow> string list \<Rightarrow> string" where
  "join sep [] = []"
| "join sep [x] = x"
| "join sep (x # y # ys) = x @ sep @ join sep (y # ys)"

section \<open>The world outside the script\<close>

text \<open>
  How an attempt to run a command ends: \<^verbatim>\<open>subprocess.run\<close> raised on its own account
  (the exception class and message, say \<^verbatim>\<open>FileNotFoundError\<close> when \<^verbatim>\<open>aws\<close> is not
  installed), or the process ran and ended with a return code, its captured standard
  output and its captured error stream.
\<close>

datatype launch = Raised string string | Finished int string string

text \<open>
  Everything the script reads from outside: the environment variables, the \<^verbatim>\<open>aws\<close>
  tool (what a command line gives, with the files it can see), the \<^verbatim>\<open>json\<close> module of
  the standard library (\<^verbatim>\<open>loads\<close> gives a value or the message of its
  \<^verbatim>\<open>JSONDecodeError\<close>), whether \<^verbatim>\<open>open(path, 'w')\<close> fails (the exception class and
  message), and the files present at the start.
\<close>

record world =
  environ :: "string \<rightharpoonup> string"
  aws :: "string list \<Rightarrow> (string \<rightharpoonup> string) \<Rightarrow> launch"
  json_loads :: "string \<Rightarrow> string + json"
  json_dumps :: "json \<Rightarrow> string"
  open_w :: "string \<Rightarrow> (string \<times> string) option"
  files0 :: "string \<rightharpoonup> string"

text \<open>
  What a run does, in order: the lines printed, the commands it tried to start and the
  files written; and the files as they are now.
\<close>

datatype event = Print "piece list" | Run "string list" | Write string string

record state =
  trace :: "event list"
  files :: "string \<rightharpoonup> string"

text \<open>
  How the program ends: it runs to its last line (exit status 0), it calls
  \<^verbatim>\<open>sys.exit(n)\<close>, or an exception nobody catches ends it with a traceback (exit
  status 1).
\<close>

datatype outcome = Completed | SysExit int | Uncaught exn

fun exit_status :: "outcome \<Rightarrow> int" where
  "exit_status Completed = 0"
| "exit_status (SysExit n) = n"
| "exit_status (Uncaught e) = 1"

definition emit :: "event \<Rightarrow> state \<Rightarrow> state" where
  "emit ev s = s\<lparr>trace := trace s @ [ev]\<rparr>"

definition print :: "piece list \<Rightarrow> state \<Rightarrow> state" where
  "print line s = emit (Print line) s"

definition write_file :: "string \<Rightarrow> string \<Rightarrow> state \<Rightarrow> state" where
  "write_file path text s = emit (Write path text) (s\<lparr>files := (files s)(path \<mapsto> text)\<rparr>)"

text \<open>The commands of a run, in order.\<close>

fun calls :: "event list \<Rightarrow> string list list" where
  "calls [] = []"
| "calls (Run argv # evs) = argv # calls evs"
| "calls (ev # evs) = calls evs"

section \<open>Library calls\<close>

text \<open>
  An argument of a command has to be a \<^verbatim>\<open>str\<close> without a null character; otherwise
  \<^verbatim>\<open>subprocess.run\<close> raises before any process is started.
\<close>

fun arg_str :: "json \<Rightarrow> exn + string" where
  "arg_str (JStr s) =
     (if CHR 0x00 \<in> set s then Inl (OtherException ''ValueError'' ''embedded null byte'')
      else Inr s)"
| "arg_str v =
     Inl (OtherException ''TypeError''
            (''expected str, bytes or os.PathLike object, not '' @ type_name v))"

fun argv_of :: "json list \<Rightarrow> exn + string list" where
  "argv_of [] = Inr []"
| "argv_of (a # as) =
     (case arg_str a of
        Inl e \<Rightarrow> Inl e
      | Inr s \<Rightarrow> (case argv_of as of Inl e \<Rightarrow> Inl e | Inr ss \<Rightarrow> Inr (s # ss)))"

text \<open>
  \<^verbatim>\<open>subprocess.run(args, capture_output=True, text=True, check=True).stdout\<close>: with
  \<^verbatim>\<open>check=True\<close> a return code other than 0 raises \<^verbatim>\<open>CalledProcessError\<close>.
\<close>

definition subprocess_run :: "world \<Rightarrow> json list \<Rightarrow> state \<Rightarrow> (exn + string) \<times> state" where
  "subprocess_run w args s =
     (case argv_of args of
        Inl e \<Rightarrow> (Inl e, s)
      | Inr argv \<Rightarrow>
          (case aws w argv (files s) of
             Raised cls msg \<Rightarrow> (Inl (OtherException cls msg), emit (Run argv) s)
           | Finished returncode out err \<Rightarrow>
               (if returncode \<noteq> 0 then Inl (CalledProcessError returncode argv out err)
                else Inr out,
                emit (Run argv) s)))"

definition loads :: "world \<Rightarrow> string \<Rightarrow> exn + json" where
  "loads w text =
     (case json_loads w text of
        Inl msg \<Rightarrow> Inl (OtherException ''JSONDecodeError'' msg)
      | Inr v \<Rightarrow> Inr v)"

text \<open>\<^verbatim>\<open>v[k1][k2]...\<close>, looked up from left to right.\<close>

fun subscripts :: "json \<Rightarrow> string list \<Rightarrow> exn + json" where
  "subscripts v [] = Inr v"
| "subscripts v (k # ks) =
     (case subscript v k of Inl e \<Rightarrow> Inl e | Inr v' \<Rightarrow> subscripts v' ks)"

section \<open>The script\<close>

subsection \<open>Lines 24 to 47: the distribution identifier\<close>

text \<open>
  The loop of lines 34 to 38. \<^verbatim>\<open>dist_id\<close> starts as \<^verbatim>\<open>None\<close>; the first entry whose
  \<^verbatim>\<open>Comment\<close> equals the target comment gives \<^verbatim>\<open>dist_id = dist['Id']\<close> and ends the
  loop. Either subscript may raise.
\<close>

fun find_dist_id :: "json list \<Rightarrow> exn + json" where
  "find_dist_id [] = Inr JNull"
| "find_dist_id (d # rest) =
     (case subscript d ''Comment'' of
        Inl e \<Rightarrow> Inl e
      | Inr comment \<Rightarrow>
          if comment = JStr DISTRIBUTION_COMMENT then subscript d ''Id''
          else find_dist_id rest)"

text \<open>Lines 32 to 38, from the output of the listing command to \<^verbatim>\<open>dist_id\<close>.\<close>

definition resolve :: "world \<Rightarrow> string \<Rightarrow> exn + json" where
  "resolve w out =
     (case loads w out of
        Inl e \<Rightarrow> Inl e
      | Inr distributions \<Rightarrow>
          (case subscripts distributions [''DistributionList'', ''Items''] of
             Inl e \<Rightarrow> Inl e
           | Inr items \<Rightarrow>
               (case iterate items of
                  Inl e \<Rightarrow> Inl e
                | Inr dists \<Rightarrow> find_dist_id dists)))"

definition list_argv :: "string list" where
  "list_argv = [''aws'', ''cloudfront'', ''list-distributions'', ''--output'', ''json'']"

definition listing_error :: "exn \<Rightarrow> piece list" where
  "listing_error e = [Lit cross_mark, Lit '' Error listing distributions: ''] @ str_exn e"

definition not_found_line :: "piece list" where
  "not_found_line =
     [Lit cross_mark, Lit ('' Error: Could not find distribution with comment '' @ apostrophe),
      Val (JStr DISTRIBUTION_COMMENT), Lit apostrophe]"

definition found_line :: "json \<Rightarrow> piece list" where
  "found_line dist_id = [Lit check_mark, Lit '' Found distribution ID: '', Val dist_id]"

text \<open>
  The \<^verbatim>\<open>sys.exit(1)\<close> of line 42 raises \<^verbatim>\<open>SystemExit\<close>, which is no \<^verbatim>\<open>Exception\<close>:
  the handler of line 45 lets it through.
\<close>

definition get_distribution_id :: "world \<Rightarrow> state \<Rightarrow> (outcome + json) \<times> state" where
  "get_distribution_id w s =
     (case subprocess_run w (map JStr list_argv) s of
        (Inl e, s1) \<Rightarrow> (Inl (SysExit 1), print (listing_error e) s1)
      | (Inr out, s1) \<Rightarrow>
          (case resolve w out of
             Inl e \<Rightarrow> (Inl (SysExit 1), print (listing_error e) s1)
           | Inr dist_id \<Rightarrow>
               if \<not> truthy dist_id then (Inl (SysExit 1), print not_found_line s1)
               else (Inr dist_id, print (found_line dist_id) s1)))"

subsection \<open>Lines 49 to 64: the current configuration and its ETag\<close>

definition get_argv :: "string \<Rightarrow> string list" where
  "get_argv dist_id =
     [''aws'', ''cloudfront'', ''get-distribution-config'', ''--id'', dist_id, ''--output'', ''json'']"

definition get_args :: "json \<Rightarrow> json list" where
  "get_args dist_id =
     [JStr ''aws'', JStr ''cloudfront'', JStr ''get-distribution-config'', JStr ''--id'', dist_id,
      JStr ''--output'', JStr ''json'']"

text \<open>Lines 57 to 59.\<close>

definition fetched :: "world \<Rightarrow> string \<Rightarrow> exn + json \<times> json" where
  "fetched w out =
     (case loads w out of
        Inl e \<Rightarrow> Inl e
      | Inr dist_response \<Rightarrow>
          (case subscript dist_response ''DistributionConfig'' of
             Inl e \<Rightarrow> Inl e
           | Inr config \<Rightarrow>
               (case subscript dist_response ''ETag'' of
                  Inl e \<Rightarrow> Inl e
                | Inr etag \<Rightarrow> Inr (config, etag))))"

definition config_error :: "exn \<Rightarrow> piece list" where
  "config_error e = [Lit cross_mark, Lit '' Error getting distribution config: ''] @ str_exn e"

definition retrieved_line :: "json \<Rightarrow> piece list" where
  "retrieved_line etag =
     [Lit check_mark, Lit '' Retrieved current distribution config (ETag: '', Val etag, Lit '')'']"

definition get_distribution_config ::
  "world \<Rightarrow> json \<Rightarrow> state \<Rightarrow> (outcome + json \<times> json) \<times> state" where
  "get_distribution_config w dist_id s =
     (case subprocess_run w (get_args dist_id) s of
        (Inl e, s1) \<Rightarrow> (Inl (SysExit 1), print (config_error e) s1)
      | (Inr out, s1) \<Rightarrow>
          (case fetched w out of
             Inl e \<Rightarrow> (Inl (SysExit 1), print (config_error e) s1)
           | Inr (config, etag) \<Rightarrow> (Inr (config, etag), print (retrieved_line etag) s1)))"

subsection \<open>Lines 66 to 86: the updated configuration and its file\<close>

definition tmp_path :: string where
  "tmp_path = ''/tmp/dist-config-updated.json''"

text \<open>
  Nothing here is inside a \<^verbatim>\<open>try\<close> block. \<^verbatim>\<open>json.dump\<close> cannot fail on a value that
  \<^verbatim>\<open>json.loads\<close> built, so once the file is open it holds the serialized document.
\<close>

definition write_updated_config ::
  "world \<Rightarrow> string \<Rightarrow> json \<Rightarrow> state \<Rightarrow> (outcome + json) \<times> state" where
  "write_updated_config w CERT_ARN config s =
     (case mutate_config CERT_ARN DOMAIN_NAMES config of
        Inl e \<Rightarrow> (Inl (Uncaught e), s)
      | Inr config' \<Rightarrow>
          (let s1 = print [Lit check_mark, Lit '' Updated configuration:''] s;
               s2 = print [Lit ''   ViewerCertificate: ACM with SNI-only''] s1;
               s3 = print [Lit ''   Aliases: '', Val (JList (map JStr DOMAIN_NAMES))] s2
           in case open_w w tmp_path of
                Some (cls, msg) \<Rightarrow> (Inl (Uncaught (OtherException cls msg)), s3)
              | None \<Rightarrow> (Inr config', write_file tmp_path (json_dumps w config') s3)))"

subsection \<open>Lines 88 to 122: the update and its report\<close>

definition update_argv :: "string \<Rightarrow> string \<Rightarrow> string list" where
  "update_argv dist_id etag =
     [''aws'', ''cloudfront'', ''update-distribution'',
      ''--id'', dist_id,
      ''--distribution-config'', ''file://'' @ tmp_path,
      ''--if-match'', etag,
      ''--output'', ''json'']"

definition update_args :: "json \<Rightarrow> json \<Rightarrow> json list" where
  "update_args dist_id etag =
     [JStr ''aws'', JStr ''cloudfront'', JStr ''update-distribution'',
      JStr ''--id'', dist_id,
      JStr ''--distribution-config'', JStr (''file://'' @ tmp_path),
      JStr ''--if-match'', etag,
      JStr ''--output'', JStr ''json'']"

text \<open>
  A statement of the \<^verbatim>\<open>try\<close> block either raises, leaving the state as it is, or
  goes on; statements run in order until one raises.
\<close>

type_synonym stmt = "state \<Rightarrow> exn option \<times> state"

fun run_stmts :: "stmt list \<Rightarrow> stmt" where
  "run_stmts [] s = (None, s)"
| "run_stmts (c # cs) s =
     (case c s of
        (Some e, s') \<Rightarrow> (Some e, s')
      | (None, s') \<Rightarrow> run_stmts cs s')"

text \<open>
  \<^verbatim>\<open>print(f"...")\<close>: the f-string is evaluated first, and when one of its subscripts
  raises nothing is printed.
\<close>

fun say :: "exn + piece list \<Rightarrow> stmt" where
  "say (Inl e) s = (Some e, s)"
| "say (Inr line) s = (None, print line s)"

text \<open>An f-string \<^verbatim>\<open>f"<prefix>{v}"\<close> whose value \<open>v\<close> may raise.\<close>

fun labelled :: "string \<Rightarrow> exn + json \<Rightarrow> exn + piece list" where
  "labelled prefix (Inl e) = Inl e"
| "labelled prefix (Inr v) = Inr [Lit prefix, Val v]"

text \<open>\<^verbatim>\<open>s.split('/')[-1]\<close>: what follows the last slash of \<open>s\<close>.\<close>

definition last_segment :: "string \<Rightarrow> string" where
  "last_segment s = rev (takeWhile (\<lambda>c. c \<noteq> CHR ''/'') (rev s))"

text \<open>\<^verbatim>\<open>v.split('/')[-1]\<close>: only a \<^verbatim>\<open>str\<close> has the method.\<close>

fun split_last :: "exn + json \<Rightarrow> exn + json" where
  "split_last (Inl e) = Inl e"
| "split_last (Inr (JStr s)) = Inr (JStr (last_segment s))"
| "split_last (Inr v) =
     Inl (OtherException ''AttributeError''
            (apostrophe @ type_name v @ apostrophe @ '' object has no attribute '' @
             apostrophe @ ''split'' @ apostrophe))"

text \<open>Line 113, once for each domain.\<close>

fun cname_line :: "json \<Rightarrow> string \<Rightarrow> exn + piece list" where
  "cname_line updated domain =
     (case subscripts updated [''Distribution'', ''DomainName''] of
        Inl e \<Rightarrow> Inl e
      | Inr v \<Rightarrow>
          Inr [Lit ''      '', Val (JStr domain), Lit ('' '' @ rightwards_arrow @ '' ''), Val v])"

text \<open>
  The f-strings of the print statements of lines 103 to 115, in order; line 113 comes
  once for each domain.
\<close>

definition report_lines :: "json \<Rightarrow> (exn + piece list) list" where
  "report_lines updated =
     [Inr [Lit check_mark, Lit '' Distribution updated successfully!''],
      Inr [Lit [CHR 0x0A], Lit bar_chart, Lit '' Distribution details:''],
      labelled ''   ID: '' (subscripts updated [''Distribution'', ''Id'']),
      labelled ''   Domain: '' (subscripts updated [''Distribution'', ''DomainName'']),
      labelled ''   Aliases: ''
        (subscripts updated [''Distribution'', ''DistributionConfig'', ''Aliases'', ''Items'']),
      labelled ''   Certificate: ''
        (split_last
           (subscripts updated
              [''Distribution'', ''DistributionConfig'', ''ViewerCertificate'',
               ''ACMCertificateArn''])),
      labelled ([CHR 0x0A] @ hourglass @ '' Status: '')
        (subscripts updated [''Distribution'', ''Status'']),
      Inr [Lit [CHR 0x0A], Lit memo, Lit '' Next steps:''],
      Inr [Lit ''   1. Add CNAME records in your DNS provider:'']]
     @ map (cname_line updated) DOMAIN_NAMES
     @ [Inr [Lit ''   2. Wait for DNS propagation (5-15 minutes)''],
        Inr [Lit ''   3. Distribution will complete deployment (may take 10-15 minutes)'']]"

text \<open>Lines 101 to 115, after the update command has returned.\<close>

definition report :: "world \<Rightarrow> string \<Rightarrow> stmt" where
  "report w out s =
     (case loads w out of
        Inl e \<Rightarrow> (Some e, s)
      | Inr updated \<Rightarrow> run_stmts (map say (report_lines updated)) s)"

text \<open>
  The two handlers of lines 117 to 122: a \<^verbatim>\<open>CalledProcessError\<close> has its captured
  error stream printed, any other exception its message.
\<close>

fun update_error :: "exn \<Rightarrow> piece list" where
  "update_error (CalledProcessError returncode cmd out err) =
     [Lit cross_mark, Lit '' Error updating distribution: '', Val (JStr err)]"
| "update_error e = [Lit cross_mark, Lit '' Error: ''] @ str_exn e"

definition updating_line :: "piece list" where
  "updating_line = [Lit [CHR 0x0A], Lit rocket, Lit '' Updating CloudFront distribution...'']"

definition update_distribution :: "world \<Rightarrow> json \<Rightarrow> json \<Rightarrow> state \<Rightarrow> outcome \<times> state" where
  "update_distribution w dist_id etag s =
     (let s1 = print updating_line s
      in case subprocess_run w (update_args dist_id etag) s1 of
           (Inl e, s2) \<Rightarrow> (SysExit 1, print (update_error e) s2)
         | (Inr out, s2) \<Rightarrow>
             (case report w out s2 of
                (Some e, s3) \<Rightarrow> (SysExit 1, print (update_error e) s3)
              | (None, s3) \<Rightarrow> (Completed, s3)))"

subsection \<open>The whole program\<close>

text \<open>Lines 16 to 18, when \<^verbatim>\<open>not CERT_ARN\<close> holds.\<close>

definition not_set_line :: "piece list" where
  "not_set_line =
     [Lit cross_mark, Lit '' Error: ACM_CERTIFICATE_ARN environment variable not set'']"

definition missing_certificate :: "state \<Rightarrow> outcome \<times> state" where
  "missing_certificate s = (SysExit 1, print not_set_line s)"

text \<open>Lines 20 to 122, with a certificate ARN that passed the check of line 16.\<close>

definition update_with :: "world \<Rightarrow> string \<Rightarrow> state \<Rightarrow> outcome \<times> state" where
  "update_with w CERT_ARN s0 =
     (let s1 = print [Lit wrench, Lit '' Updating CloudFront distribution with certificate...''] s0;
          s2 = print [Lit ''   Certificate ARN: '', Val (JStr CERT_ARN)] s1;
          s3 = print [Lit ''   Domain names: '', Val (JStr (join '', '' DOMAIN_NAMES))] s2
      in case get_distribution_id w s3 of
           (Inl halt, s4) \<Rightarrow> (halt, s4)
         | (Inr dist_id, s4) \<Rightarrow>
             (case get_distribution_config w dist_id s4 of
                (Inl halt, s5) \<Rightarrow> (halt, s5)
              | (Inr (config, etag), s5) \<Rightarrow>
                  (case write_updated_config w CERT_ARN config s5 of
                     (Inl halt, s6) \<Rightarrow> (halt, s6)
                   | (Inr config', s6) \<Rightarrow> update_distribution w dist_id etag s6)))"

text \<open>
  \<^verbatim>\<open>os.environ.get('ACM_CERTIFICATE_ARN')\<close> is \<^verbatim>\<open>None\<close> or a string, and
  \<^verbatim>\<open>not CERT_ARN\<close> holds for \<^verbatim>\<open>None\<close> and for the empty string.
\<close>

definition script :: "world \<Rightarrow> outcome \<times> state" where
  "script w =
     (let s0 = \<lparr>trace = [], files = files0 w\<rparr>
      in case environ w ''ACM_CERTIFICATE_ARN'' of
           None \<Rightarrow> missing_certificate s0
         | Some CERT_ARN \<Rightarrow>
             if CERT_ARN = [] then missing_certificate s0 else update_with w CERT_ARN s0)"

section \<open>Runs and worlds the properties speak about\<close>

text \<open>
  The listing command ran with return code 0 in world \<open>w\<close> and lines 32 to 38 left
  \<open>dist_id\<close> in the variable of that name, with a certificate ARN that passed line 16.
\<close>

definition listing_resolves :: "world \<Rightarrow> string \<Rightarrow> json \<Rightarrow> bool" where
  "listing_resolves w CERT_ARN dist_id \<longleftrightarrow>
     environ w ''ACM_CERTIFICATE_ARN'' = Some CERT_ARN \<and> CERT_ARN \<noteq> [] \<and>
     (case aws w list_argv (files0 w) of
        Finished returncode out err \<Rightarrow> returncode = 0 \<and> resolve w out = Inr dist_id
      | Raised cls msg \<Rightarrow> False)"

text \<open>
  The run reaches line 66: the identifier found is the non-empty string \<open>dist_id\<close>, it
  can be passed to a command, the fetch command ran with return code 0, and lines 57 to
  59 gave \<open>config\<close> and \<open>etag\<close>.
\<close>

definition config_fetched :: "world \<Rightarrow> string \<Rightarrow> string \<Rightarrow> json \<Rightarrow> json \<Rightarrow> bool" where
  "config_fetched w CERT_ARN dist_id config etag \<longleftrightarrow>
     listing_resolves w CERT_ARN (JStr dist_id) \<and> dist_id \<noteq> [] \<and> CHR 0x00 \<notin> set dist_id \<and>
     (case aws w (get_argv dist_id) (files0 w) of
        Finished returncode out err \<Rightarrow> returncode = 0 \<and> fetched w out = Inr (config, etag)
      | Raised cls msg \<Rightarrow> False)"

text \<open>
  What lines 20 to 22 print, and what a run has printed and started when it reaches
  line 66.
\<close>

definition events_of_banner :: "string \<Rightarrow> event list" where
  "events_of_banner CERT_ARN =
     [Print [Lit wrench, Lit '' Updating CloudFront distribution with certificate...''],
      Print [Lit ''   Certificate ARN: '', Val (JStr CERT_ARN)],
      Print [Lit ''   Domain names: '', Val (JStr (join '', '' DOMAIN_NAMES))]]"

definition events_until_fetched :: "string \<Rightarrow> string \<Rightarrow> json \<Rightarrow> event list" where
  "events_until_fetched CERT_ARN dist_id etag =
     events_of_banner CERT_ARN @
     [Run list_argv,
      Print (found_line (JStr dist_id)),
      Run (get_argv dist_id),
      Print (retrieved_line etag)]"

text \<open>The three lines printed between the mutation and the write of the file.\<close>

definition events_of_mutation :: "event list" where
  "events_of_mutation =
     [Print [Lit check_mark, Lit '' Updated configuration:''],
      Print [Lit ''   ViewerCertificate: ACM with SNI-only''],
      Print [Lit ''   Aliases: '', Val (JList (map JStr DOMAIN_NAMES))]]"

text \<open>
  An entry of a listing whose comment is the target comment, and an entry that has a
  comment at all (so that line 36 does not raise on it).
\<close>

definition is_target :: "json \<Rightarrow> bool" where
  "is_target d \<longleftrightarrow> subscript d ''Comment'' = Inr (JStr DISTRIBUTION_COMMENT)"

definition has_comment :: "json \<Rightarrow> bool" where
  "has_comment d \<longleftrightarrow> (case subscript d ''Comment'' of Inr c \<Rightarrow> True | Inl e \<Rightarrow> False)"

text \<open>
  The fields of the reply of the update command that lines 105 to 113 read, each as the
  keys subscripted from left to right; a reply lacks one when one of these lookups
  raises. The reply is unusable when it cannot be parsed or lacks such a field.
\<close>

definition expected_fields :: "string list list" where
  "expected_fields =
     [[''Distribution'', ''Id''],
      [''Distribution'', ''DomainName''],
      [''Distribution'', ''DistributionConfig'', ''Aliases'', ''Items''],
      [''Distribution'', ''DistributionConfig'', ''ViewerCertificate'', ''ACMCertificateArn''],
      [''Distribution'', ''Status'']]"

definition lacks_field :: "json \<Rightarrow> bool" where
  "lacks_field updated \<longleftrightarrow> list_ex (\<lambda>path. isl (subscripts updated path)) expected_fields"

definition reply_unusable :: "world \<Rightarrow> string \<Rightarrow> bool" where
  "reply_unusable w out \<longleftrightarrow>
     (case loads w out of Inl e \<Rightarrow> True | Inr updated \<Rightarrow> lacks_field updated)"

text \<open>
  The scenario of the specification: one distribution \<^verbatim>\<open>E123\<close> with the target comment,
  a configuration with the alias \<^verbatim>\<open>old.example.com\<close> and ETag \<^verbatim>\<open>E_OLD\<close>. The outputs
  of the three commands are named rather than spelled out; \<open>json_loads\<close> of the scenario
  maps each name to the document it stands for.
\<close>

definition scenario_arn :: string where
  "scenario_arn = ''arn:aws:acm:us-east-1:123456789012:certificate/abc''"

definition scenario_entries :: "json list" where
  "scenario_entries =
     [JDict [(''Id'', JStr ''E999''), (''Comment'', JStr ''another distribution''),
             (''DomainName'', JStr ''d999.cloudfront.net'')],
      JDict [(''Id'', JStr ''E123''), (''Comment'', JStr ''sharespace frontend distribution''),
             (''DomainName'', JStr ''d123.cloudfront.net'')]]"

definition scenario_listing :: json where
  "scenario_listing =
     JDict [(''DistributionList'',
             JDict [(''Quantity'', JInt 2), (''Items'', JList scenario_entries)])]"

definition scenario_config :: "(string \<times> json) list" where
  "scenario_config =
     [(''CallerReference'', JStr ''ref-1''),
      (''Aliases'', JDict [(''Quantity'', JInt 1), (''Items'', JList [JStr ''old.example.com''])]),
      (''Comment'', JStr ''sharespace frontend distribution''),
      (''ViewerCertificate'', JDict [(''CloudFrontDefaultCertificate'', JBool True)]),
      (''Enabled'', JBool True)]"

definition scenario_response :: json where
  "scenario_response = JDict [(''ETag'', JStr ''E_OLD''), (''DistributionConfig'', JDict scenario_config)]"

definition scenario_updated_config :: json where
  "scenario_updated_config =
     JDict [(''CallerReference'', JStr ''ref-1''),
            (''Aliases'',
             JDict [(''Quantity'', JInt 2),
                    (''Items'', JList [JStr ''itsonlycastlesburning.com'',
                                       JStr ''*.itsonlycastlesburning.com''])]),
            (''Comment'', JStr ''sharespace frontend distribution''),
            (''ViewerCertificate'',
             JDict [(''ACMCertificateArn'', JStr scenario_arn),
                    (''SSLSupportMethod'', JStr ''sni-only''),
                    (''MinimumProtocolVersion'', JStr ''TLSv1.2_2021''),
                    (''CertificateSource'', JStr ''acm'')]),
            (''Enabled'', JBool True)]"

definition scenario_updated :: json where
  "scenario_updated =
     JDict [(''ETag'', JStr ''E_NEW''),
            (''Distribution'',
             JDict [(''Id'', JStr ''E123''),
                    (''Status'', JStr ''InProgress''),
                    (''DomainName'', JStr ''d123.cloudfront.net''),
                    (''DistributionConfig'', scenario_updated_config)])]"

definition scenario_aws :: "string list \<Rightarrow> (string \<rightharpoonup> string) \<Rightarrow> launch" where
  "scenario_aws argv fs =
     (if argv = list_argv then Finished 0 ''list-distributions.out'' []
      else if argv = get_argv ''E123'' then Finished 0 ''get-distribution-config.out'' []
      else if argv = update_argv ''E123'' ''E_OLD''
      then (if fs tmp_path = Some ''dist-config-updated.json''
            then Finished 0 ''update-distribution.out'' []
            else Finished 254 [] ''An error occurred (MalformedInput)'')
      else Finished 252 [] ''aws: error: argument operation: Invalid choice'')"

definition scenario_loads :: "string \<Rightarrow> string + json" where
  "scenario_loads text =
     (if text = ''list-distributions.out'' then Inr scenario_listing
      else if text = ''get-distribution-config.out'' then Inr scenario_response
      else if text = ''update-distribution.out'' then Inr scenario_updated
      else Inl ''Expecting value: line 1 column 1 (char 0)'')"

definition scenario_dumps :: "json \<Rightarrow> string" where
  "scenario_dumps v = (if v = scenario_updated_config then ''dist-config-updated.json'' else ''other.json'')"

definition scenario :: world where
  "scenario =
     \<lparr>environ = [''ACM_CERTIFICATE_ARN'' \<mapsto> scenario_arn],
      aws = scenario_aws,
      json_loads = scenario_loads,
      json_dumps = scenario_dumps,
      open_w = (\<lambda>path. None),
      files0 = Map.empty\<rparr>"

text \<open>The scenario without the environment variable, and with an empty one.\<close>

definition scenario_unset :: world where
  "scenario_unset = scenario\<lparr>environ := Map.empty\<rparr>"

definition scenario_empty :: world where
  "scenario_empty = scenario\<lparr>environ := [''ACM_CERTIFICATE_ARN'' \<mapsto> []]\<rparr>"

text \<open>The scenario with a listing in which no entry carries the target comment.\<close>

definition entries_without_match :: "json list" where
  "entries_without_match =
     [JDict [(''Id'', JStr ''E999''), (''Comment'', JStr ''another distribution''),
             (''DomainName'', JStr ''d999.cloudfront.net'')]]"

definition listing_without_match :: json where
  "listing_without_match =
     JDict [(''DistributionList'',
             JDict [(''Quantity'', JInt 1), (''Items'', JList entries_without_match)])]"

definition scenario_no_match :: world where
  "scenario_no_match =
     scenario\<lparr>json_loads :=
       (\<lambda>text. if text = ''list-distributions.out'' then Inr listing_without_match
               else scenario_loads text)\<rparr>"

text \<open>
  The scenario with a listing whose first entry with the target comment has the empty
  string as its identifier, followed by the entry of the scenario.
\<close>

definition entries_with_empty_id :: "json list" where
  "entries_with_empty_id =
     [JDict [(''Id'', JStr []), (''Comment'', JStr ''sharespace frontend distribution'')],
      JDict [(''Id'', JStr ''E123''), (''Comment'', JStr ''sharespace frontend distribution'')]]"

definition scenario_empty_id :: world where
  "scenario_empty_id =
     scenario\<lparr>json_loads :=
       (\<lambda>text. if text = ''list-distributions.out''
               then Inr (JDict [(''DistributionList'', JDict [(''Items'', JList entries_with_empty_id)])])
               else scenario_loads text)\<rparr>"

text \<open>
  The scenario on an account without distributions: the listing has \<^verbatim>\<open>Quantity\<close> 0 and no
  \<^verbatim>\<open>Items\<close>.
\<close>

definition empty_account_listing :: json where
  "empty_account_listing =
     JDict [(''DistributionList'',
             JDict [(''Marker'', JStr []), (''MaxItems'', JInt 100), (''IsTruncated'', JBool False),
                    (''Quantity'', JInt 0)])]"

definition scenario_empty_account :: world where
  "scenario_empty_account =
     scenario\<lparr>json_loads :=
       (\<lambda>text. if text = ''list-distributions.out'' then Inr empty_account_listing
               else scenario_loads text)\<rparr>"

text \<open>The scenario with credentials that may not list distributions.\<close>

definition access_denied :: string where
  "access_denied =
     ''An error occurred (AccessDenied) when calling the ListDistributions operation''"

definition scenario_denied :: world where
  "scenario_denied = scenario\<lparr>aws := (\<lambda>argv fs. Finished 254 [] access_denied)\<rparr>"

text \<open>
  The scenario with an update command that succeeds and prints a document without
  the key \<^verbatim>\<open>Distribution\<close>.
\<close>

definition scenario_short_reply :: world where
  "scenario_short_reply =
     scenario\<lparr>json_loads :=
       (\<lambda>text. if text = ''update-distribution.out'' then Inr (JDict [(''ETag'', JStr ''E_NEW'')])
               else scenario_loads text)\<rparr>"

text \<open>The scenario with an update command that succeeds and prints no JSON document.\<close>

definition scenario_garbled :: world where
  "scenario_garbled =
     scenario\<lparr>json_loads :=
       (\<lambda>text. if text = ''update-distribution.out''
               then Inl ''Expecting value: line 1 column 1 (char 0)''
               else scenario_loads text)\<rparr>"

section \<open>Basic facts\<close>

lemma map_of_dict_set: "map_of (dict_set k v kvs) = (map_of kvs)(k \<mapsto> v)"
  by (induction kvs) (auto simp: fun_eq_iff)

lemma filter_dict_set:
  "\<not> P (k, v) \<Longrightarrow> (\<And>v'. \<not> P (k, v')) \<Longrightarrow> filter P (dict_set k v kvs) = filter P kvs"
  by (induction kvs) auto

lemma mutate_config_dict:
  "mutate_config arn ds (JDict kvs) =
     Inr (JDict (dict_set ''Aliases'' (aliases ds)
                   (dict_set ''ViewerCertificate'' (viewer_certificate arn) kvs)))"
  by (simp add: mutate_config_def)

lemma mutate_config_unrelated:
  "filter unrelated (dict_set ''Aliases'' a (dict_set ''ViewerCertificate'' v kvs)) = filter unrelated kvs"
proof -
  have "filter unrelated (dict_set ''ViewerCertificate'' v kvs) = filter unrelated kvs"
    by (rule filter_dict_set) (simp_all add: unrelated_def)
  moreover have "filter unrelated (dict_set ''Aliases'' a (dict_set ''ViewerCertificate'' v kvs))
      = filter unrelated (dict_set ''ViewerCertificate'' v kvs)"
    by (rule filter_dict_set) (simp_all add: unrelated_def)
  ultimately show ?thesis by simp
qed

lemma mutate_config_other_keys:
  "k \<noteq> ''ViewerCertificate'' \<and> k \<noteq> ''Aliases'' \<Longrightarrow>
   subscript (JDict (dict_set ''Aliases'' a (dict_set ''ViewerCertificate'' v kvs))) k
     = subscript (JDict kvs) k"
  by (simp add: map_of_dict_set)

lemma files_print: "files (print l s) = files s"
  by (simp add: print_def emit_def)

lemma files_emit: "files (emit e s) = files s"
  by (simp add: emit_def)

lemma trace_print: "trace (print l s) = trace s @ [Print l]"
  by (simp add: print_def emit_def)

lemma trace_emit: "trace (emit e s) = trace s @ [e]"
  by (simp add: emit_def)

lemma calls_append: "calls (xs @ ys) = calls xs @ calls ys"
  by (induction xs rule: calls.induct) simp_all

lemma calls_prints: "calls (map Print ls) = []"
  by (induction ls) simp_all

lemma argv_of_list: "argv_of (map JStr list_argv) = Inr list_argv"
  by (simp add: list_argv_def)

lemma argv_of_get: "CHR 0x00 \<notin> set dist_id \<Longrightarrow> argv_of (get_args (JStr dist_id)) = Inr (get_argv dist_id)"
  by (simp add: get_args_def get_argv_def)

lemma argv_of_update: "CHR 0x00 \<notin> set dist_id \<Longrightarrow> CHR 0x00 \<notin> set etag \<Longrightarrow> argv_of (update_args (JStr dist_id) (JStr etag)) = Inr (update_argv dist_id etag)"
  by (simp add: update_args_def update_argv_def tmp_path_def)

lemma say_effect:
  "\<exists>ls. trace (snd (say x s)) = trace s @ map Print ls \<and> files (snd (say x s)) = files s"
proof (cases x)
  case (Inl e)
  then have "trace (snd (say x s)) = trace s @ map Print []" by simp
  with Inl show ?thesis by (metis say.simps(1) snd_conv)
next
  case (Inr l)
  then have "trace (snd (say x s)) = trace s @ map Print [l]" by (simp add: trace_print)
  with Inr show ?thesis by (metis files_print say.simps(2) snd_conv)
qed

lemma run_stmts_effect:
  "\<forall>c\<in>set cs. \<exists>x. c = say x \<Longrightarrow>
   \<exists>ls. trace (snd (run_stmts cs s)) = trace s @ map Print ls \<and> files (snd (run_stmts cs s)) = files s"
proof (induction cs arbitrary: s)
  case Nil
  have "trace (snd (run_stmts [] s)) = trace s @ map Print []" by simp
  then show ?case by (metis run_stmts.simps(1) snd_conv)
next
  case (Cons c cs)
  then obtain x where c: "c = say x" by auto
  obtain r s' where r: "say x s = (r, s')" by (cases "say x s")
  from say_effect [of x s] r obtain l1 where
    s': "trace s' = trace s @ map Print l1" "files s' = files s" by auto
  show ?case
  proof (cases r)
    case None
    from Cons.IH [of s'] Cons.prems obtain l2 where
      "trace (snd (run_stmts cs s')) = trace s' @ map Print l2" "files (snd (run_stmts cs s')) = files s'"
      by auto
    with s' have "trace (snd (run_stmts cs s')) = trace s @ map Print (l1 @ l2)"
      "files (snd (run_stmts cs s')) = files s" by simp_all
    moreover have "run_stmts (c # cs) s = run_stmts cs s'" using c r None by simp
    ultimately show ?thesis by metis
  next
    case (Some e)
    then have "run_stmts (c # cs) s = (Some e, s')" using c r by simp
    with s' show ?thesis by (metis snd_conv)
  qed
qed

lemma report_effect:
  "\<exists>ls. trace (snd (report w out s)) = trace s @ map Print ls \<and> files (snd (report w out s)) = files s"
proof (cases "loads w out")
  case (Inl e)
  then have "report w out s = (Some e, s)" by (simp add: report_def)
  moreover have "trace s = trace s @ map Print []" by simp
  ultimately show ?thesis by (metis snd_conv)
next
  case (Inr updated)
  show ?thesis
    unfolding report_def Inr sum.case
    by (rule run_stmts_effect) auto
qed


lemma subprocess_run_files: "files (snd (subprocess_run w args s)) = files s"
  by (simp add: subprocess_run_def files_emit split: sum.splits launch.splits)

lemma subprocess_run_argv:
  "argv_of args = Inr argv \<Longrightarrow>
   subprocess_run w args s =
     (case aws w argv (files s) of
        Raised cls msg \<Rightarrow> Inl (OtherException cls msg)
      | Finished returncode out err \<Rightarrow>
          if returncode \<noteq> 0 then Inl (CalledProcessError returncode argv out err) else Inr out,
      emit (Run argv) s)"
  by (simp add: subprocess_run_def split: launch.splits)

lemma update_distribution_files: "files (snd (update_distribution w d e s)) = files s"
proof -
  let ?s1 = "print updating_line s"
  obtain r s2 where run: "subprocess_run w (update_args d e) ?s1 = (r, s2)"
    by (cases "subprocess_run w (update_args d e) ?s1")
  have s2: "files s2 = files s"
    using subprocess_run_files [of w "update_args d e" ?s1] run by (simp add: files_print)
  show ?thesis
  proof (cases r)
    case (Inl ex)
    then show ?thesis using run s2 by (simp add: update_distribution_def files_print)
  next
    case (Inr out)
    obtain r3 s3 where rep: "report w out s2 = (r3, s3)" by (cases "report w out s2")
    with report_effect [of w out s2] s2 have "files s3 = files s" by auto
    then show ?thesis using run Inr rep
      by (cases r3) (simp_all add: update_distribution_def files_print)
  qed
qed

lemma update_distribution_trace:
  assumes "CHR 0x00 \<notin> set dist_id" "CHR 0x00 \<notin> set etag"
  shows "\<exists>ls. trace (snd (update_distribution w (JStr dist_id) (JStr etag) s)) =
               trace s @ [Print updating_line, Run (update_argv dist_id etag)] @ map Print ls"
proof -
  let ?s1 = "print updating_line s"
  let ?s2 = "emit (Run (update_argv dist_id etag)) ?s1"
  obtain r where run: "subprocess_run w (update_args (JStr dist_id) (JStr etag)) ?s1 = (r, ?s2)"
    by (simp add: subprocess_run_argv [OF argv_of_update [OF assms]])
  have s2: "trace ?s2 = trace s @ [Print updating_line, Run (update_argv dist_id etag)]"
    by (simp add: trace_emit trace_print)
  show ?thesis
  proof (cases r)
    case (Inl ex)
    then have "trace (snd (update_distribution w (JStr dist_id) (JStr etag) s)) =
        trace s @ [Print updating_line, Run (update_argv dist_id etag)] @ map Print [update_error ex]"
      using run by (simp add: update_distribution_def trace_print trace_emit)
    then show ?thesis by blast
  next
    case (Inr out)
    obtain r3 s3 where rep: "report w out ?s2 = (r3, s3)" by (cases "report w out ?s2")
    with report_effect [of w out ?s2] obtain ls where
      s3: "trace s3 = trace ?s2 @ map Print ls" by auto
    show ?thesis
    proof (cases r3)
      case None
      then have "trace (snd (update_distribution w (JStr dist_id) (JStr etag) s)) = trace s3"
        using run Inr rep by (simp add: update_distribution_def)
      with s3 s2 show ?thesis by auto
    next
      case (Some ex)
      then have "trace (snd (update_distribution w (JStr dist_id) (JStr etag) s)) =
          trace s3 @ map Print [update_error ex]"
        using run Inr rep by (simp add: update_distribution_def trace_print)
      with s3 s2 have "trace (snd (update_distribution w (JStr dist_id) (JStr etag) s)) =
          trace s @ [Print updating_line, Run (update_argv dist_id etag)] @ map Print (ls @ [update_error ex])"
        by simp
      then show ?thesis by blast
    qed
  qed
qed


lemma get_distribution_id_found:
  assumes "aws w list_argv (files s) = Finished 0 out err" "resolve w out = Inr dist_id" "truthy dist_id"
  shows "get_distribution_id w s = (Inr dist_id, print (found_line dist_id) (emit (Run list_argv) s))"
  using assms by (simp add: get_distribution_id_def subprocess_run_def argv_of_list)

lemma get_distribution_id_not_found:
  assumes "aws w list_argv (files s) = Finished 0 out err" "resolve w out = Inr dist_id" "\<not> truthy dist_id"
  shows "get_distribution_id w s = (Inl (SysExit 1), print not_found_line (emit (Run list_argv) s))"
  using assms by (simp add: get_distribution_id_def subprocess_run_def argv_of_list)

lemma get_distribution_config_ok:
  assumes "CHR 0x00 \<notin> set dist_id" "aws w (get_argv dist_id) (files s) = Finished 0 out err"
    "fetched w out = Inr (config, etag)"
  shows "get_distribution_config w (JStr dist_id) s =
           (Inr (config, etag), print (retrieved_line etag) (emit (Run (get_argv dist_id)) s))"
  using assms by (simp add: get_distribution_config_def subprocess_run_def argv_of_get)

lemma write_updated_config_ok:
  assumes "mutate_config CERT_ARN DOMAIN_NAMES config = Inr config'" "open_w w tmp_path = None"
  shows "write_updated_config w CERT_ARN config s =
     (Inr config',
      \<lparr>trace = trace s @ events_of_mutation @ [Write tmp_path (json_dumps w config')],
       files = (files s)(tmp_path \<mapsto> json_dumps w config')\<rparr>)"
  using assms
  by (simp add: write_updated_config_def Let_def print_def emit_def write_file_def events_of_mutation_def)

lemma script_with_certificate:
  assumes "environ w ''ACM_CERTIFICATE_ARN'' = Some CERT_ARN" "CERT_ARN \<noteq> []"
  shows "script w = update_with w CERT_ARN \<lparr>trace = [], files = files0 w\<rparr>"
  using assms by (simp add: script_def)

lemma script_reaches_update:
  assumes "config_fetched w CERT_ARN dist_id config etag"
    and "mutate_config CERT_ARN DOMAIN_NAMES config = Inr config'"
    and "open_w w tmp_path = None"
  shows "script w = update_distribution w (JStr dist_id) etag
     \<lparr>trace = events_until_fetched CERT_ARN dist_id etag @ events_of_mutation
               @ [Write tmp_path (json_dumps w config')],
       files = (files0 w)(tmp_path \<mapsto> json_dumps w config')\<rparr>"
proof -
  from assms(1) obtain out1 err1 out2 err2 where
    env: "environ w ''ACM_CERTIFICATE_ARN'' = Some CERT_ARN" "CERT_ARN \<noteq> []"
    and l: "aws w list_argv (files0 w) = Finished 0 out1 err1" "resolve w out1 = Inr (JStr dist_id)"
    and d: "dist_id \<noteq> []" "CHR 0x00 \<notin> set dist_id"
    and g: "aws w (get_argv dist_id) (files0 w) = Finished 0 out2 err2" "fetched w out2 = Inr (config, etag)"
    by (auto simp: config_fetched_def listing_resolves_def split: launch.splits)
  show ?thesis
    using d
    by (simp add: script_with_certificate [OF env] update_with_def Let_def
        get_distribution_id_found [OF _ l(2)] l(1)
        get_distribution_config_ok [OF d(2) _ g(2)] g(1)
        write_updated_config_ok [OF assms(2,3)]
        events_until_fetched_def events_of_banner_def print_def emit_def)
qed

lemma mutate_config_viewer_certificate:
  "subscript (JDict (dict_set ''Aliases'' a (dict_set ''ViewerCertificate'' v kvs))) ''ViewerCertificate'' = Inr v"
  by (simp add: map_of_dict_set)

lemma mutate_config_aliases:
  "subscript (JDict (dict_set ''Aliases'' a kvs)) ''Aliases'' = Inr a"
  by (simp add: map_of_dict_set)

lemma written_file:
  assumes "config_fetched w CERT_ARN dist_id (JDict kvs) etag" "open_w w tmp_path = None"
  shows "files (snd (script w)) tmp_path =
           Some (json_dumps w (JDict (dict_set ''Aliases'' (aliases DOMAIN_NAMES)
                  (dict_set ''ViewerCertificate'' (viewer_certificate CERT_ARN) kvs))))"
  by (simp add: script_reaches_update [OF assms(1) mutate_config_dict assms(2)] update_distribution_files)

lemmas scenario_defs =
  scenario_def scenario_aws_def scenario_loads_def scenario_dumps_def scenario_arn_def
  scenario_entries_def scenario_listing_def scenario_config_def scenario_response_def scenario_updated_config_def
  scenario_updated_def list_argv_def get_argv_def update_argv_def tmp_path_def
  DISTRIBUTION_COMMENT_def DOMAIN_NAMES_def

lemma scenario_fetched:
  "config_fetched scenario scenario_arn ''E123'' (JDict scenario_config) (JStr ''E_OLD'')"
  by (simp add: config_fetched_def listing_resolves_def resolve_def loads_def fetched_def scenario_defs)

lemma scenario_open: "open_w scenario tmp_path = None"
  by (simp add: scenario_def)

section \<open>The mutation step\<close>

text \<open>
  Claim C1. For every configuration document (a dict) and every domain list, the
  mutation step returns a document in which every key other than \<^verbatim>\<open>ViewerCertificate\<close>
  and \<^verbatim>\<open>Aliases\<close> has the value it had, and the entries of those other keys come in
  the same order: restricted to the unrelated keys, the document is the same
  association list before and after. And in a run that fetched the document \<open>kvs\<close>,
  the file handed to the update command holds the serialization of such a document.
\<close>

theorem unrelated_fields_unchanged:
  "(\<exists>kvs'. mutate_config CERT_ARN domain_names (JDict kvs) = Inr (JDict kvs')
       \<and> filter unrelated kvs' = filter unrelated kvs
       \<and> (\<forall>k. k \<noteq> ''ViewerCertificate'' \<and> k \<noteq> ''Aliases''
              \<longrightarrow> subscript (JDict kvs') k = subscript (JDict kvs) k))
   \<and> (config_fetched w CERT_ARN dist_id (JDict kvs) etag \<and> open_w w tmp_path = None \<longrightarrow>
        (\<exists>kvs'. files (snd (script w)) tmp_path = Some (json_dumps w (JDict kvs'))
           \<and> filter unrelated kvs' = filter unrelated kvs
           \<and> (\<forall>k. k \<noteq> ''ViewerCertificate'' \<and> k \<noteq> ''Aliases''
                  \<longrightarrow> subscript (JDict kvs') k = subscript (JDict kvs) k)))"
proof (intro conjI impI)
  show "\<exists>kvs'. mutate_config CERT_ARN domain_names (JDict kvs) = Inr (JDict kvs')
       \<and> filter unrelated kvs' = filter unrelated kvs
       \<and> (\<forall>k. k \<noteq> ''ViewerCertificate'' \<and> k \<noteq> ''Aliases''
              \<longrightarrow> subscript (JDict kvs') k = subscript (JDict kvs) k)"
    using mutate_config_unrelated [of "aliases domain_names" "viewer_certificate CERT_ARN" kvs]
      mutate_config_other_keys [of _ "aliases domain_names" "viewer_certificate CERT_ARN" kvs]
    by (simp add: mutate_config_dict)
next
  let ?kvs' = "dict_set ''Aliases'' (aliases DOMAIN_NAMES)
                 (dict_set ''ViewerCertificate'' (viewer_certificate CERT_ARN) kvs)"
  assume "config_fetched w CERT_ARN dist_id (JDict kvs) etag \<and> open_w w tmp_path = None"
  then have "files (snd (script w)) tmp_path = Some (json_dumps w (JDict ?kvs'))"
    using written_file [of w CERT_ARN dist_id kvs etag] by blast
  moreover have "filter unrelated ?kvs' = filter unrelated kvs"
    by (rule mutate_config_unrelated)
  moreover have "\<forall>k. k \<noteq> ''ViewerCertificate'' \<and> k \<noteq> ''Aliases''
                  \<longrightarrow> subscript (JDict ?kvs') k = subscript (JDict kvs) k"
    using mutate_config_other_keys [of _ "aliases DOMAIN_NAMES" "viewer_certificate CERT_ARN" kvs]
    by blast
  ultimately show "\<exists>kvs'. files (snd (script w)) tmp_path = Some (json_dumps w (JDict kvs'))
           \<and> filter unrelated kvs' = filter unrelated kvs
           \<and> (\<forall>k. k \<noteq> ''ViewerCertificate'' \<and> k \<noteq> ''Aliases''
                  \<longrightarrow> subscript (JDict kvs') k = subscript (JDict kvs) k)"
    by blast
qed

theorem unrelated_fields_unchanged_witness:
  "config_fetched scenario scenario_arn ''E123'' (JDict scenario_config) (JStr ''E_OLD'')
   \<and> open_w scenario tmp_path = None
   \<and> (\<exists>kvs'. files (snd (script scenario)) tmp_path = Some (json_dumps scenario (JDict kvs'))
          \<and> filter unrelated kvs' = filter unrelated scenario_config
          \<and> (\<forall>k. k \<noteq> ''ViewerCertificate'' \<and> k \<noteq> ''Aliases''
                 \<longrightarrow> subscript (JDict kvs') k = subscript (JDict scenario_config) k))"
  using unrelated_fields_unchanged [where w = scenario and CERT_ARN = scenario_arn
      and dist_id = "''E123''" and kvs = scenario_config and etag = "JStr ''E_OLD''"]
    scenario_fetched scenario_open
  by blast

text \<open>
  Claim C2. Whatever the document held before, after the mutation step its
  \<^verbatim>\<open>ViewerCertificate\<close> is exactly the block of four entries: the certificate ARN,
  \<^verbatim>\<open>SSLSupportMethod\<close> \<^verbatim>\<open>sni-only\<close>, \<^verbatim>\<open>MinimumProtocolVersion\<close> \<^verbatim>\<open>TLSv1.2_2021\<close> and
  \<^verbatim>\<open>CertificateSource\<close> \<^verbatim>\<open>acm\<close>. In a run, the ARN is the value of the environment
  variable and the block is in the document written for the update command.
\<close>

theorem viewer_certificate_replaced:
  "(\<exists>kvs'. mutate_config CERT_ARN domain_names (JDict kvs) = Inr (JDict kvs')
       \<and> subscript (JDict kvs') ''ViewerCertificate'' =
           Inr (JDict [(''ACMCertificateArn'', JStr CERT_ARN),
                       (''SSLSupportMethod'', JStr ''sni-only''),
                       (''MinimumProtocolVersion'', JStr ''TLSv1.2_2021''),
                       (''CertificateSource'', JStr ''acm'')]))
   \<and> (config_fetched w CERT_ARN dist_id (JDict kvs) etag \<and> open_w w tmp_path = None \<longrightarrow>
        (\<exists>kvs'. files (snd (script w)) tmp_path = Some (json_dumps w (JDict kvs'))
           \<and> subscript (JDict kvs') ''ViewerCertificate'' =
               Inr (JDict [(''ACMCertificateArn'', JStr CERT_ARN),
                           (''SSLSupportMethod'', JStr ''sni-only''),
                           (''MinimumProtocolVersion'', JStr ''TLSv1.2_2021''),
                           (''CertificateSource'', JStr ''acm'')])))"
proof (intro conjI impI)
  show "\<exists>kvs'. mutate_config CERT_ARN domain_names (JDict kvs) = Inr (JDict kvs')
       \<and> subscript (JDict kvs') ''ViewerCertificate'' =
           Inr (JDict [(''ACMCertificateArn'', JStr CERT_ARN),
                       (''SSLSupportMethod'', JStr ''sni-only''),
                       (''MinimumProtocolVersion'', JStr ''TLSv1.2_2021''),
                       (''CertificateSource'', JStr ''acm'')])"
    using mutate_config_viewer_certificate [of "aliases domain_names" "viewer_certificate CERT_ARN" kvs]
    by (simp add: mutate_config_dict viewer_certificate_def)
next
  assume "config_fetched w CERT_ARN dist_id (JDict kvs) etag \<and> open_w w tmp_path = None"
  then have "files (snd (script w)) tmp_path =
           Some (json_dumps w (JDict (dict_set ''Aliases'' (aliases DOMAIN_NAMES)
                  (dict_set ''ViewerCertificate'' (viewer_certificate CERT_ARN) kvs))))"
    using written_file [of w CERT_ARN dist_id kvs etag] by blast
  moreover have "subscript (JDict (dict_set ''Aliases'' (aliases DOMAIN_NAMES)
                  (dict_set ''ViewerCertificate'' (viewer_certificate CERT_ARN) kvs))) ''ViewerCertificate'' =
           Inr (JDict [(''ACMCertificateArn'', JStr CERT_ARN),
                       (''SSLSupportMethod'', JStr ''sni-only''),
                       (''MinimumProtocolVersion'', JStr ''TLSv1.2_2021''),
                       (''CertificateSource'', JStr ''acm'')])"
    using mutate_config_viewer_certificate [of "aliases DOMAIN_NAMES" "viewer_certificate CERT_ARN" kvs]
    by (simp add: viewer_certificate_def)
  ultimately show "\<exists>kvs'. files (snd (script w)) tmp_path = Some (json_dumps w (JDict kvs'))
           \<and> subscript (JDict kvs') ''ViewerCertificate'' =
               Inr (JDict [(''ACMCertificateArn'', JStr CERT_ARN),
                           (''SSLSupportMethod'', JStr ''sni-only''),
                           (''MinimumProtocolVersion'', JStr ''TLSv1.2_2021''),
                           (''CertificateSource'', JStr ''acm'')])"
    by blast
qed

theorem viewer_certificate_replaced_witness:
  "config_fetched scenario scenario_arn ''E123'' (JDict scenario_config) (JStr ''E_OLD'')
   \<and> open_w scenario tmp_path = None
   \<and> (\<exists>kvs'. files (snd (script scenario)) tmp_path = Some (json_dumps scenario (JDict kvs'))
          \<and> subscript (JDict kvs') ''ViewerCertificate'' =
               Inr (JDict [(''ACMCertificateArn'', JStr scenario_arn),
                           (''SSLSupportMethod'', JStr ''sni-only''),
                           (''MinimumProtocolVersion'', JStr ''TLSv1.2_2021''),
                           (''CertificateSource'', JStr ''acm'')]))"
  using viewer_certificate_replaced [where w = scenario and CERT_ARN = scenario_arn
      and dist_id = "''E123''" and kvs = scenario_config and etag = "JStr ''E_OLD''"]
    scenario_fetched scenario_open
  by blast

text \<open>
  Claim C3. Whatever aliases the document held before, after the mutation step its
  \<^verbatim>\<open>Aliases\<close> block is exactly \<^verbatim>\<open>Quantity\<close>, the length of the domain list, and
  \<^verbatim>\<open>Items\<close>, the domains in the order given. In a run, the domain list is
  \<^verbatim>\<open>DOMAIN_NAMES\<close> and the block is in the document written for the update command.
\<close>

theorem aliases_replaced:
  "(\<exists>kvs'. mutate_config CERT_ARN domain_names (JDict kvs) = Inr (JDict kvs')
       \<and> subscript (JDict kvs') ''Aliases'' =
           Inr (JDict [(''Quantity'', JInt (int (length domain_names))),
                       (''Items'', JList (map JStr domain_names))]))
   \<and> (config_fetched w CERT_ARN dist_id (JDict kvs) etag \<and> open_w w tmp_path = None \<longrightarrow>
        (\<exists>kvs'. files (snd (script w)) tmp_path = Some (json_dumps w (JDict kvs'))
           \<and> subscript (JDict kvs') ''Aliases'' =
               Inr (JDict [(''Quantity'', JInt 2),
                           (''Items'', JList [JStr ''itsonlycastlesburning.com'',
                                              JStr ''*.itsonlycastlesburning.com''])])))"
proof (intro conjI impI)
  show "\<exists>kvs'. mutate_config CERT_ARN domain_names (JDict kvs) = Inr (JDict kvs')
       \<and> subscript (JDict kvs') ''Aliases'' =
           Inr (JDict [(''Quantity'', JInt (int (length domain_names))),
                       (''Items'', JList (map JStr domain_names))])"
    using mutate_config_aliases
      [of "aliases domain_names" "dict_set ''ViewerCertificate'' (viewer_certificate CERT_ARN) kvs"]
    by (simp add: mutate_config_dict aliases_def)
next
  let ?kvs' = "dict_set ''Aliases'' (aliases DOMAIN_NAMES)
                 (dict_set ''ViewerCertificate'' (viewer_certificate CERT_ARN) kvs)"
  assume "config_fetched w CERT_ARN dist_id (JDict kvs) etag \<and> open_w w tmp_path = None"
  then have "files (snd (script w)) tmp_path = Some (json_dumps w (JDict ?kvs'))"
    using written_file [of w CERT_ARN dist_id kvs etag] by blast
  moreover have "subscript (JDict ?kvs') ''Aliases'' =
               Inr (JDict [(''Quantity'', JInt 2),
                           (''Items'', JList [JStr ''itsonlycastlesburning.com'',
                                              JStr ''*.itsonlycastlesburning.com''])])"
    using mutate_config_aliases
      [of "aliases DOMAIN_NAMES" "dict_set ''ViewerCertificate'' (viewer_certificate CERT_ARN) kvs"]
    by (simp add: aliases_def DOMAIN_NAMES_def)
  ultimately show "\<exists>kvs'. files (snd (script w)) tmp_path = Some (json_dumps w (JDict kvs'))
           \<and> subscript (JDict kvs') ''Aliases'' =
               Inr (JDict [(''Quantity'', JInt 2),
                           (''Items'', JList [JStr ''itsonlycastlesburning.com'',
                                              JStr ''*.itsonlycastlesburning.com''])])"
    by blast
qed

theorem aliases_replaced_witness:
  "config_fetched scenario scenario_arn ''E123'' (JDict scenario_config) (JStr ''E_OLD'')
   \<and> open_w scenario tmp_path = None
   \<and> (\<exists>kvs'. files (snd (script scenario)) tmp_path = Some (json_dumps scenario (JDict kvs'))
          \<and> subscript (JDict kvs') ''Aliases'' =
               Inr (JDict [(''Quantity'', JInt 2),
                           (''Items'', JList [JStr ''itsonlycastlesburning.com'',
                                              JStr ''*.itsonlycastlesburning.com''])]))"
  using aliases_replaced [where w = scenario and CERT_ARN = scenario_arn
      and dist_id = "''E123''" and kvs = scenario_config and etag = "JStr ''E_OLD''"]
    scenario_fetched scenario_open
  by blast

section \<open>The certificate check of lines 12 to 18\<close>

text \<open>
  Claim C5. When the environment variable \<^verbatim>\<open>ACM_CERTIFICATE_ARN\<close> is absent, the
  program prints its error line and ends with exit status 1 (not zero); it has started
  no command and written no file.
\<close>

theorem missing_certificate_halts:
  "environ w ''ACM_CERTIFICATE_ARN'' = None \<Longrightarrow>
     script w = (SysExit 1, \<lparr>trace = [Print not_set_line], files = files0 w\<rparr>)
     \<and> exit_status (fst (script w)) \<noteq> 0
     \<and> calls (trace (snd (script w))) = []
     \<and> files (snd (script w)) = files0 w"
  by (simp add: script_def missing_certificate_def print_def emit_def)

theorem missing_certificate_halts_witness:
  "environ scenario_unset ''ACM_CERTIFICATE_ARN'' = None
   \<and> script scenario_unset = (SysExit 1, \<lparr>trace = [Print not_set_line], files = Map.empty\<rparr>)
   \<and> exit_status (fst (script scenario_unset)) = 1
   \<and> calls (trace (snd (script scenario_unset))) = []"
  using missing_certificate_halts [of scenario_unset]
  by (simp add: scenario_unset_def scenario_def)

text \<open>
  Claim C9. When the environment variable \<^verbatim>\<open>ACM_CERTIFICATE_ARN\<close> is set to the empty
  string, the run is the run of the same world without the variable: the same error
  line, exit status 1, no command started.
\<close>

theorem empty_certificate_halts:
  "environ w ''ACM_CERTIFICATE_ARN'' = Some [] \<Longrightarrow>
     script w = (SysExit 1, \<lparr>trace = [Print not_set_line], files = files0 w\<rparr>)
     \<and> exit_status (fst (script w)) = 1
     \<and> calls (trace (snd (script w))) = []
     \<and> script w = script (w\<lparr>environ := (environ w)(''ACM_CERTIFICATE_ARN'' := None)\<rparr>)"
  by (simp add: script_def missing_certificate_def print_def emit_def)

theorem empty_certificate_halts_witness:
  "environ scenario_empty ''ACM_CERTIFICATE_ARN'' = Some []
   \<and> script scenario_empty = (SysExit 1, \<lparr>trace = [Print not_set_line], files = Map.empty\<rparr>)
   \<and> exit_status (fst (script scenario_empty)) = 1
   \<and> calls (trace (snd (script scenario_empty))) = []
   \<and> script scenario_empty = script scenario_unset"
proof -
  have unset: "environ scenario_empty ''ACM_CERTIFICATE_ARN'' = Some []"
    by (simp add: scenario_empty_def scenario_def)
  have eq: "scenario_empty\<lparr>environ := (environ scenario_empty)(''ACM_CERTIFICATE_ARN'' := None)\<rparr>
          = scenario_unset"
    by (simp add: scenario_empty_def scenario_unset_def scenario_def)
  have fs: "files0 scenario_empty = Map.empty"
    by (simp add: scenario_empty_def scenario_def)
  note halts = empty_certificate_halts [OF unset, unfolded eq fs]
  show ?thesis using halts unset by blast
qed

section \<open>The resolver of lines 24 to 47\<close>

lemma find_dist_id_find:
  "list_all has_comment ds \<Longrightarrow>
   find_dist_id ds = (case find is_target ds of None \<Rightarrow> Inr JNull | Some d \<Rightarrow> subscript d ''Id'')"
  by (induction ds) (auto simp: has_comment_def is_target_def split: sum.splits)

lemma script_not_found:
  assumes "environ w ''ACM_CERTIFICATE_ARN'' = Some CERT_ARN" "CERT_ARN \<noteq> []"
    and "aws w list_argv (files0 w) = Finished 0 out err"
    and "resolve w out = Inr dist_id" "\<not> truthy dist_id"
  shows "script w = (SysExit 1,
           \<lparr>trace = events_of_banner CERT_ARN @ [Run list_argv, Print not_found_line],
            files = files0 w\<rparr>)"
  using assms(5)
  by (simp add: script_with_certificate [OF assms(1,2)] update_with_def Let_def
        get_distribution_id_not_found [OF _ assms(4)] assms(3)
        events_of_banner_def print_def emit_def)

lemma subprocess_run_extends:
  "\<exists>evs. trace (snd (subprocess_run w args s)) = trace s @ evs"
  by (auto simp: subprocess_run_def trace_emit split: sum.splits launch.splits)

lemma update_distribution_extends:
  "\<exists>evs. trace (snd (update_distribution w d e s)) = trace s @ evs"
proof -
  let ?s1 = "print updating_line s"
  obtain r s2 where run: "subprocess_run w (update_args d e) ?s1 = (r, s2)"
    by (cases "subprocess_run w (update_args d e) ?s1")
  with subprocess_run_extends [of w "update_args d e" ?s1] obtain evs where
    s2: "trace s2 = trace s @ [Print updating_line] @ evs"
    by (auto simp: trace_print)
  show ?thesis
  proof (cases r)
    case (Inl ex)
    then have "trace (snd (update_distribution w d e s))
        = trace s @ ([Print updating_line] @ evs @ [Print (update_error ex)])"
      using run s2 by (simp add: update_distribution_def trace_print)
    then show ?thesis by blast
  next
    case (Inr out)
    obtain r3 s3 where rep: "report w out s2 = (r3, s3)" by (cases "report w out s2")
    with report_effect [of w out s2] obtain ls where
      s3: "trace s3 = trace s2 @ map Print ls" by auto
    show ?thesis
    proof (cases r3)
      case None
      then have "trace (snd (update_distribution w d e s))
          = trace s @ ([Print updating_line] @ evs @ map Print ls)"
        using run Inr rep s2 s3 by (simp add: update_distribution_def)
      then show ?thesis by blast
    next
      case (Some ex)
      then have "trace (snd (update_distribution w d e s))
          = trace s @ ([Print updating_line] @ evs @ map Print ls @ [Print (update_error ex)])"
        using run Inr rep s2 s3 by (simp add: update_distribution_def trace_print)
      then show ?thesis by blast
    qed
  qed
qed

lemma write_updated_config_extends:
  "\<exists>evs. trace (snd (write_updated_config w CERT_ARN config s)) = trace s @ evs"
  by (auto simp: write_updated_config_def Let_def print_def emit_def write_file_def
      split: sum.splits option.splits)

lemma get_distribution_config_extends:
  "\<exists>evs. trace (snd (get_distribution_config w d s)) = trace s @ evs"
proof -
  obtain r s1 where run: "subprocess_run w (get_args d) s = (r, s1)"
    by (cases "subprocess_run w (get_args d) s")
  with subprocess_run_extends [of w "get_args d" s] obtain evs where
    s1: "trace s1 = trace s @ evs" by auto
  show ?thesis
  proof (cases r)
    case (Inl ex)
    then have "trace (snd (get_distribution_config w d s)) = trace s @ (evs @ [Print (config_error ex)])"
      using run s1 by (simp add: get_distribution_config_def trace_print)
    then show ?thesis by blast
  next
    case (Inr out)
    show ?thesis
    proof (cases "fetched w out")
      case (Inl ex)
      then have "trace (snd (get_distribution_config w d s)) = trace s @ (evs @ [Print (config_error ex)])"
        using run s1 Inr by (simp add: get_distribution_config_def trace_print)
      then show ?thesis by blast
    next
      case (Inr ce)
      then have "trace (snd (get_distribution_config w d s))
          = trace s @ (evs @ [Print (retrieved_line (snd ce))])"
        using run s1 \<open>r = Inr out\<close>
        by (cases ce) (simp add: get_distribution_config_def trace_print)
      then show ?thesis by blast
    qed
  qed
qed

lemma script_after_found:
  assumes "environ w ''ACM_CERTIFICATE_ARN'' = Some CERT_ARN" and "CERT_ARN \<noteq> []"
    and "aws w list_argv (files0 w) = Finished 0 out err"
    and "resolve w out = Inr dist_id" and "truthy dist_id"
  shows "\<exists>evs. trace (snd (script w))
           = events_of_banner CERT_ARN @ [Run list_argv, Print (found_line dist_id)] @ evs"
proof -
  let ?s3 = "\<lparr>trace = events_of_banner CERT_ARN, files = files0 w\<rparr>"
  let ?s4 = "print (found_line dist_id) (emit (Run list_argv) ?s3)"
  have s4: "trace ?s4 = events_of_banner CERT_ARN @ [Run list_argv, Print (found_line dist_id)]"
    by (simp add: trace_print trace_emit)
  have run: "script w = (case get_distribution_config w dist_id ?s4 of
                (Inl halt, s5) \<Rightarrow> (halt, s5)
              | (Inr (config, etag), s5) \<Rightarrow>
                  (case write_updated_config w CERT_ARN config s5 of
                     (Inl halt, s6) \<Rightarrow> (halt, s6)
                   | (Inr config', s6) \<Rightarrow> update_distribution w dist_id etag s6))"
    using assms(5)
    by (simp add: script_with_certificate [OF assms(1,2)] update_with_def Let_def
        get_distribution_id_found [OF _ assms(4)] assms(3)
        events_of_banner_def print_def emit_def)
  obtain r5 s5 where g: "get_distribution_config w dist_id ?s4 = (r5, s5)"
    by (cases "get_distribution_config w dist_id ?s4")
  with get_distribution_config_extends [of w dist_id ?s4] obtain e5 where
    s5: "trace s5 = trace ?s4 @ e5" by auto
  show ?thesis
  proof (cases r5)
    case (Inl halt)
    then have "trace (snd (script w)) = trace ?s4 @ e5"
      using g s5 by (simp add: run)
    then show ?thesis unfolding s4 by auto
  next
    case (Inr ce)
    obtain config etag where ce: "ce = (config, etag)" by (cases ce)
    obtain r6 s6 where wr: "write_updated_config w CERT_ARN config s5 = (r6, s6)"
      by (cases "write_updated_config w CERT_ARN config s5")
    with write_updated_config_extends [of w CERT_ARN config s5] obtain e6 where
      s6: "trace s6 = trace s5 @ e6" by auto
    show ?thesis
    proof (cases r6)
      case (Inl halt)
      then have "trace (snd (script w)) = trace ?s4 @ (e5 @ e6)"
        using g Inr ce wr s5 s6 by (simp add: run)
      then show ?thesis unfolding s4 by auto
    next
      case (Inr config')
      from update_distribution_extends [of w dist_id etag s6] obtain e7 where
        "trace (snd (update_distribution w dist_id etag s6)) = trace s6 @ e7" by blast
      then have "trace (snd (script w)) = trace ?s4 @ (e5 @ e6 @ e7)"
        using g Inr \<open>r5 = Inr ce\<close> ce wr s5 s6 by (simp add: run)
      then show ?thesis unfolding s4 by auto
    qed
  qed
qed

text \<open>
  On a listing whose \<^verbatim>\<open>DistributionList.Items\<close> is a list of entries that all have a
  \<^verbatim>\<open>Comment\<close>: the resolver returns the identifier of the first entry, in the order of
  the list, whose comment equals the target comment, when that identifier is truthy, and
  the run goes on with it; when no entry has the target comment, or the identifier of
  the first one that has it is falsy, the program prints the not-found line and ends
  with exit status 1 after the listing command.
\<close>

lemma resolver_first_match:
  assumes "environ w ''ACM_CERTIFICATE_ARN'' = Some CERT_ARN" and "CERT_ARN \<noteq> []"
    and "aws w list_argv (files0 w) = Finished 0 out err"
    and "loads w out = Inr distributions"
    and "subscripts distributions [''DistributionList'', ''Items''] = Inr (JList ds)"
    and "list_all has_comment ds"
  shows "(\<forall>d dist_id. find is_target ds = Some d \<and> subscript d ''Id'' = Inr dist_id
              \<and> truthy dist_id \<longrightarrow>
            get_distribution_id w \<lparr>trace = events_of_banner CERT_ARN, files = files0 w\<rparr>
              = (Inr dist_id,
                 \<lparr>trace = events_of_banner CERT_ARN @ [Run list_argv, Print (found_line dist_id)],
                  files = files0 w\<rparr>)
            \<and> (\<exists>evs. trace (snd (script w))
                  = events_of_banner CERT_ARN @ [Run list_argv, Print (found_line dist_id)] @ evs))
       \<and> (find is_target ds = None
            \<or> (\<exists>d dist_id. find is_target ds = Some d \<and> subscript d ''Id'' = Inr dist_id
                  \<and> \<not> truthy dist_id) \<longrightarrow>
          script w = (SysExit 1,
             \<lparr>trace = events_of_banner CERT_ARN @ [Run list_argv, Print not_found_line],
              files = files0 w\<rparr>)
          \<and> exit_status (fst (script w)) \<noteq> 0
          \<and> calls (trace (snd (script w))) = [list_argv])"
proof -
  have found: "get_distribution_id w \<lparr>trace = events_of_banner CERT_ARN, files = files0 w\<rparr>
              = (Inr dist_id,
                 \<lparr>trace = events_of_banner CERT_ARN @ [Run list_argv, Print (found_line dist_id)],
                  files = files0 w\<rparr>)
            \<and> (\<exists>evs. trace (snd (script w))
                  = events_of_banner CERT_ARN @ [Run list_argv, Print (found_line dist_id)] @ evs)"
    if h: "find is_target ds = Some d \<and> subscript d ''Id'' = Inr dist_id \<and> truthy dist_id"
    for d dist_id
  proof -
    from h have r: "resolve w out = Inr dist_id"
      using assms(4,5) by (simp add: resolve_def find_dist_id_find [OF assms(6)])
    from h have t: "truthy dist_id" by simp
    have "get_distribution_id w \<lparr>trace = events_of_banner CERT_ARN, files = files0 w\<rparr>
              = (Inr dist_id,
                 \<lparr>trace = events_of_banner CERT_ARN @ [Run list_argv, Print (found_line dist_id)],
                  files = files0 w\<rparr>)"
      using assms(3) r t by (simp add: get_distribution_id_found print_def emit_def)
    with script_after_found [OF assms(1,2,3) r t] show ?thesis by blast
  qed
  have not_found: "script w = (SysExit 1,
             \<lparr>trace = events_of_banner CERT_ARN @ [Run list_argv, Print not_found_line],
              files = files0 w\<rparr>)
          \<and> exit_status (fst (script w)) \<noteq> 0
          \<and> calls (trace (snd (script w))) = [list_argv]"
    if h: "find is_target ds = None
            \<or> (\<exists>d dist_id. find is_target ds = Some d \<and> subscript d ''Id'' = Inr dist_id
                  \<and> \<not> truthy dist_id)"
  proof -
    from h obtain dist_id where r: "resolve w out = Inr dist_id" "\<not> truthy dist_id"
      using assms(4,5) by (auto simp: resolve_def find_dist_id_find [OF assms(6)])
    have "script w = (SysExit 1,
             \<lparr>trace = events_of_banner CERT_ARN @ [Run list_argv, Print not_found_line],
              files = files0 w\<rparr>)"
      by (rule script_not_found [OF assms(1,2,3) r])
    then show ?thesis
      by (simp add: events_of_banner_def)
  qed
  from found not_found show ?thesis by blast
qed

lemma resolver_first_match_scenario:
  "find is_target scenario_entries
     = Some (JDict [(''Id'', JStr ''E123''), (''Comment'', JStr ''sharespace frontend distribution''),
                    (''DomainName'', JStr ''d123.cloudfront.net'')])
   \<and> get_distribution_id scenario \<lparr>trace = events_of_banner scenario_arn, files = Map.empty\<rparr>
     = (Inr (JStr ''E123''),
        \<lparr>trace = events_of_banner scenario_arn @ [Run list_argv, Print (found_line (JStr ''E123''))],
         files = Map.empty\<rparr>)
   \<and> find is_target entries_without_match = None
   \<and> script scenario_no_match
       = (SysExit 1,
          \<lparr>trace = events_of_banner scenario_arn @ [Run list_argv, Print not_found_line],
           files = Map.empty\<rparr>)
   \<and> calls (trace (snd (script scenario_no_match))) = [list_argv]"
proof -
  let ?d = "JDict [(''Id'', JStr ''E123''), (''Comment'', JStr ''sharespace frontend distribution''),
                     (''DomainName'', JStr ''d123.cloudfront.net'')]"
  have env: "environ scenario ''ACM_CERTIFICATE_ARN'' = Some scenario_arn" "scenario_arn \<noteq> []"
    by (simp_all add: scenario_defs)
  have run: "aws scenario list_argv (files0 scenario) = Finished 0 ''list-distributions.out'' []"
    by (simp add: scenario_defs)
  have doc: "loads scenario ''list-distributions.out'' = Inr scenario_listing"
    by (simp add: loads_def scenario_def scenario_loads_def)
  have items: "subscripts scenario_listing [''DistributionList'', ''Items''] = Inr (JList scenario_entries)"
    by (simp add: scenario_listing_def)
  have wf: "list_all has_comment scenario_entries"
    by (simp add: has_comment_def scenario_entries_def)
  have found: "find is_target scenario_entries = Some ?d"
    by (simp add: is_target_def scenario_entries_def DISTRIBUTION_COMMENT_def)
  have id: "subscript ?d ''Id'' = Inr (JStr ''E123'')" "truthy (JStr ''E123'')"
    by simp_all
  have fs0: "files0 scenario = Map.empty"
    by (simp add: scenario_def)
  from resolver_first_match [OF env run doc items wf] found id
  have "get_distribution_id scenario \<lparr>trace = events_of_banner scenario_arn, files = files0 scenario\<rparr>
     = (Inr (JStr ''E123''),
        \<lparr>trace = events_of_banner scenario_arn @ [Run list_argv, Print (found_line (JStr ''E123''))],
         files = files0 scenario\<rparr>)"
    by blast
  then have first: "get_distribution_id scenario \<lparr>trace = events_of_banner scenario_arn, files = Map.empty\<rparr>
     = (Inr (JStr ''E123''),
        \<lparr>trace = events_of_banner scenario_arn @ [Run list_argv, Print (found_line (JStr ''E123''))],
         files = Map.empty\<rparr>)"
    unfolding fs0 .
  have env': "environ scenario_no_match ''ACM_CERTIFICATE_ARN'' = Some scenario_arn"
    by (simp add: scenario_no_match_def scenario_defs)
  have run': "aws scenario_no_match list_argv (files0 scenario_no_match)
      = Finished 0 ''list-distributions.out'' []"
    by (simp add: scenario_no_match_def scenario_defs)
  have doc': "loads scenario_no_match ''list-distributions.out'' = Inr listing_without_match"
    by (simp add: loads_def scenario_no_match_def)
  have items': "subscripts listing_without_match [''DistributionList'', ''Items'']
      = Inr (JList entries_without_match)"
    by (simp add: listing_without_match_def)
  have wf': "list_all has_comment entries_without_match"
    by (simp add: has_comment_def entries_without_match_def)
  have none: "find is_target entries_without_match = None"
    by (simp add: is_target_def entries_without_match_def DISTRIBUTION_COMMENT_def)
  have fs: "files0 scenario_no_match = Map.empty"
    by (simp add: scenario_no_match_def scenario_def)
  from resolver_first_match [OF env' env(2) run' doc' items' wf'] none
  have "script scenario_no_match
       = (SysExit 1,
          \<lparr>trace = events_of_banner scenario_arn @ [Run list_argv, Print not_found_line],
           files = files0 scenario_no_match\<rparr>)
     \<and> calls (trace (snd (script scenario_no_match))) = [list_argv]"
    by blast
  then have second: "script scenario_no_match
       = (SysExit 1,
          \<lparr>trace = events_of_banner scenario_arn @ [Run list_argv, Print not_found_line],
           files = Map.empty\<rparr>)
     \<and> calls (trace (snd (script scenario_no_match))) = [list_argv]"
    unfolding fs .
  from found first none second show ?thesis by blast
qed

text \<open>
  A first entry with the target comment whose identifier is the empty string: the
  resolver stops at it, and the program reports that no distribution was found.
\<close>

lemma resolver_empty_identifier:
  "find is_target entries_with_empty_id
     = Some (JDict [(''Id'', JStr []), (''Comment'', JStr ''sharespace frontend distribution'')])
   \<and> resolve scenario_empty_id ''list-distributions.out'' = Inr (JStr [])
   \<and> fst (get_distribution_id scenario_empty_id \<lparr>trace = [], files = Map.empty\<rparr>) = Inl (SysExit 1)
   \<and> script scenario_empty_id
       = (SysExit 1,
          \<lparr>trace = events_of_banner scenario_arn @ [Run list_argv, Print not_found_line],
           files = Map.empty\<rparr>)"
proof -
  have found: "find is_target entries_with_empty_id
     = Some (JDict [(''Id'', JStr []), (''Comment'', JStr ''sharespace frontend distribution'')])"
    by (simp add: is_target_def entries_with_empty_id_def DISTRIBUTION_COMMENT_def)
  have res: "resolve scenario_empty_id ''list-distributions.out'' = Inr (JStr [])"
    by (simp add: resolve_def loads_def scenario_empty_id_def entries_with_empty_id_def scenario_defs)
  have run: "aws scenario_empty_id list_argv Map.empty = Finished 0 ''list-distributions.out'' []"
    by (simp add: scenario_empty_id_def scenario_defs)
  have env: "environ scenario_empty_id ''ACM_CERTIFICATE_ARN'' = Some scenario_arn" "scenario_arn \<noteq> []"
    by (simp_all add: scenario_empty_id_def scenario_defs)
  have fs: "files0 scenario_empty_id = Map.empty"
    by (simp add: scenario_empty_id_def scenario_def)
  have "get_distribution_id scenario_empty_id \<lparr>trace = [], files = Map.empty\<rparr>
      = (Inl (SysExit 1), print not_found_line (emit (Run list_argv) \<lparr>trace = [], files = Map.empty\<rparr>))"
    by (rule get_distribution_id_not_found [OF _ res]) (simp_all add: run)
  moreover have "script scenario_empty_id
       = (SysExit 1,
          \<lparr>trace = events_of_banner scenario_arn @ [Run list_argv, Print not_found_line],
           files = Map.empty\<rparr>)"
    using script_not_found [OF env _ res] run fs by simp
  ultimately show ?thesis using found res by simp
qed

text \<open>
  Claim C4, on the listing of an account without distributions (\<^verbatim>\<open>Quantity\<close> 0 and no
  \<^verbatim>\<open>Items\<close>): no entry has the target comment, yet the program does not print the
  not-found line. Line 35 raises \<^verbatim>\<open>KeyError\<close> on the missing \<^verbatim>\<open>Items\<close>, the handler of
  line 45 prints a listing error, and the program ends with exit status 1 after the
  listing command.
\<close>

theorem empty_account_listing_error:
  "subscripts empty_account_listing [''DistributionList'', ''Items'']
     = Inl (OtherException ''KeyError'' (apostrophe @ ''Items'' @ apostrophe))
   \<and> script scenario_empty_account =
       (SysExit 1,
        \<lparr>trace = events_of_banner scenario_arn
            @ [Run list_argv,
               Print [Lit cross_mark, Lit '' Error listing distributions: '',
                      Lit (apostrophe @ ''Items'' @ apostrophe)]],
         files = Map.empty\<rparr>)
   \<and> Print not_found_line \<notin> set (trace (snd (script scenario_empty_account)))
   \<and> calls (trace (snd (script scenario_empty_account))) = [list_argv]"
proof -
  let ?e = "OtherException ''KeyError'' (apostrophe @ ''Items'' @ apostrophe)"
  have k: "subscripts empty_account_listing [''DistributionList'', ''Items''] = Inl ?e"
    by (simp add: empty_account_listing_def apostrophe_def)
  have env: "environ scenario_empty_account ''ACM_CERTIFICATE_ARN'' = Some scenario_arn"
      "scenario_arn \<noteq> []"
    by (simp_all add: scenario_empty_account_def scenario_def scenario_arn_def)
  have run: "aws scenario_empty_account list_argv (files0 scenario_empty_account)
      = Finished 0 ''list-distributions.out'' []"
    by (simp add: scenario_empty_account_def scenario_def scenario_aws_def)
  have res: "resolve scenario_empty_account ''list-distributions.out'' = Inl ?e"
    by (simp add: resolve_def loads_def scenario_empty_account_def k del: subscripts.simps)
  have "script scenario_empty_account =
       (SysExit 1,
        \<lparr>trace = events_of_banner scenario_arn
            @ [Run list_argv, Print (listing_error ?e)],
         files = files0 scenario_empty_account\<rparr>)"
    by (simp add: script_with_certificate [OF env] update_with_def Let_def
        get_distribution_id_def subprocess_run_argv [OF argv_of_list] files_print run res
        events_of_banner_def print_def emit_def)
  then have s: "script scenario_empty_account =
       (SysExit 1,
        \<lparr>trace = events_of_banner scenario_arn
            @ [Run list_argv,
               Print [Lit cross_mark, Lit '' Error listing distributions: '',
                      Lit (apostrophe @ ''Items'' @ apostrophe)]],
         files = Map.empty\<rparr>)"
    by (simp add: listing_error_def scenario_empty_account_def scenario_def)
  have "Print not_found_line \<notin> set (trace (snd (script scenario_empty_account)))"
    unfolding s by (simp add: events_of_banner_def not_found_line_def)
  moreover have "calls (trace (snd (script scenario_empty_account))) = [list_argv]"
    unfolding s by (simp add: events_of_banner_def)
  ultimately show ?thesis using k s by blast
qed

section \<open>The commands of a run\<close>

lemma config_fetched_dist_id:
  "config_fetched w CERT_ARN dist_id config etag \<Longrightarrow> dist_id \<noteq> [] \<and> CHR 0x00 \<notin> set dist_id"
  by (simp add: config_fetched_def)

lemma calls_until_fetched:
  "calls (events_until_fetched CERT_ARN dist_id etag) = [list_argv, get_argv dist_id]"
  by (simp add: events_until_fetched_def events_of_banner_def)

lemma calls_of_mutation: "calls events_of_mutation = []"
  by (simp add: events_of_mutation_def)

lemma subscript_raises:
  "subscript v k = Inl e \<Longrightarrow> \<exists>cls msg. e = OtherException cls msg"
  by (cases v) (auto split: option.splits)

lemma loads_raises:
  "loads w text = Inl e \<Longrightarrow> \<exists>cls msg. e = OtherException cls msg"
  by (auto simp: loads_def split: sum.splits)

lemma subscripts_raises:
  "subscripts v ks = Inl e \<Longrightarrow> \<exists>cls msg. e = OtherException cls msg"
proof (induction ks arbitrary: v)
  case Nil
  then show ?case by simp
next
  case (Cons k ks)
  show ?case
  proof (cases "subscript v k")
    case (Inl e')
    with Cons.prems have "e' = e" by simp
    with Inl show ?thesis by (auto dest: subscript_raises)
  next
    case (Inr v')
    with Cons.prems have "subscripts v' ks = Inl e" by simp
    then show ?thesis by (rule Cons.IH)
  qed
qed

lemma split_last_raises:
  "split_last x = Inl e \<Longrightarrow> (\<And>e'. x = Inl e' \<Longrightarrow> \<exists>cls msg. e' = OtherException cls msg)
     \<Longrightarrow> \<exists>cls msg. e = OtherException cls msg"
  by (cases x rule: split_last.cases) auto

lemma labelled_raises: "labelled prefix x = Inl e \<Longrightarrow> x = Inl e"
  by (cases x) simp_all

lemma cname_line_raises:
  "cname_line updated domain = Inl e \<Longrightarrow> \<exists>cls msg. e = OtherException cls msg"
  by (cases "subscripts updated [''Distribution'', ''DomainName'']")
     (auto simp del: subscripts.simps dest: subscripts_raises)

lemma run_stmts_says:
  "fst (run_stmts (map say xs) s) = Some e \<Longrightarrow> Inl e \<in> set xs"
proof (induction xs arbitrary: s)
  case Nil
  then show ?case by simp
next
  case (Cons x xs)
  show ?case
  proof (cases x)
    case (Inl e')
    with Cons.prems show ?thesis by simp
  next
    case (Inr line)
    with Cons.prems have "fst (run_stmts (map say xs) (print line s)) = Some e" by simp
    then have "Inl e \<in> set xs" by (rule Cons.IH)
    then show ?thesis by simp
  qed
qed

lemma run_stmts_says_state:
  "fst (run_stmts (map say xs) s) = fst (run_stmts (map say xs) s')"
proof (induction xs arbitrary: s s')
  case Nil
  show ?case by simp
next
  case (Cons x xs)
  show ?case
  proof (cases x)
    case (Inl e')
    then show ?thesis by simp
  next
    case (Inr line)
    then show ?thesis using Cons.IH [of "print line s" "print line s'"] by simp
  qed
qed

lemma report_lines_raise:
  assumes "Inl e \<in> set (report_lines updated)"
  shows "\<exists>cls msg. e = OtherException cls msg"
proof -
  from assms consider
      keys where "labelled ''   ID: '' (subscripts updated keys) = Inl e"
    | keys where "labelled ''   Domain: '' (subscripts updated keys) = Inl e"
    | keys where "labelled ''   Aliases: '' (subscripts updated keys) = Inl e"
    | keys where "labelled ''   Certificate: '' (split_last (subscripts updated keys)) = Inl e"
    | keys where "labelled ([CHR 0x0A] @ hourglass @ '' Status: '') (subscripts updated keys) = Inl e"
    | domain where "cname_line updated domain = Inl e"
    unfolding report_lines_def
    by (auto simp del: subscripts.simps cname_line.simps)
  then show ?thesis
  proof cases
    case 4
    then have "split_last (subscripts updated keys) = Inl e" by (rule labelled_raises)
    then show ?thesis
      by (rule split_last_raises) (rule subscripts_raises)
  qed (auto simp del: subscripts.simps cname_line.simps
         dest!: labelled_raises dest: subscripts_raises cname_line_raises)
qed

lemma report_raises_other:
  "fst (report w out s) = Some e \<Longrightarrow> \<exists>cls msg. e = OtherException cls msg"
  by (auto simp: report_def split: sum.splits
      dest: loads_raises run_stmts_says report_lines_raise)

lemma report_state:
  "fst (report w out s) = fst (report w out s')"
  by (simp add: report_def run_stmts_says_state split: sum.splits)


lemma argv_of_get_args:
  "argv_of (get_args d) = Inr argv \<Longrightarrow>
     \<exists>dist_id. d = JStr dist_id \<and> CHR 0x00 \<notin> set dist_id \<and> argv = get_argv dist_id"
  by (cases d) (auto simp: get_args_def get_argv_def split: if_splits)

lemma argv_of_update_args:
  "argv_of (update_args (JStr dist_id) e) = Inr argv \<Longrightarrow>
     \<exists>etag. e = JStr etag \<and> CHR 0x00 \<notin> set etag \<and> argv = update_argv dist_id etag"
  by (cases e) (auto simp: update_args_def update_argv_def tmp_path_def split: if_splits)

lemma get_distribution_id_cases:
  "(\<exists>s'. get_distribution_id w s = (Inl (SysExit 1), s')
          \<and> calls (trace s') = calls (trace s) @ [list_argv])
   \<or> (\<exists>dist_id out err. get_distribution_id w s
            = (Inr dist_id, print (found_line dist_id) (emit (Run list_argv) s))
          \<and> aws w list_argv (files s) = Finished 0 out err \<and> resolve w out = Inr dist_id
          \<and> truthy dist_id)"
  by (auto simp: get_distribution_id_def subprocess_run_argv [OF argv_of_list] calls_append
      trace_print trace_emit split: launch.splits sum.splits)

lemma get_distribution_config_cases:
  "(\<exists>s'. get_distribution_config w d s = (Inl (SysExit 1), s')
          \<and> (calls (trace s') = calls (trace s)
              \<or> (\<exists>dist_id. d = JStr dist_id \<and> calls (trace s') = calls (trace s) @ [get_argv dist_id])))
   \<or> (\<exists>dist_id config etag out err. d = JStr dist_id \<and> CHR 0x00 \<notin> set dist_id
          \<and> get_distribution_config w d s
            = (Inr (config, etag), print (retrieved_line etag) (emit (Run (get_argv dist_id)) s))
          \<and> aws w (get_argv dist_id) (files s) = Finished 0 out err
          \<and> fetched w out = Inr (config, etag))"
proof (cases "argv_of (get_args d)")
  case (Inl e)
  then show ?thesis
    by (simp add: get_distribution_config_def subprocess_run_def trace_print calls_append)
next
  case (Inr argv)
  then obtain dist_id where d: "d = JStr dist_id" "CHR 0x00 \<notin> set dist_id" "argv = get_argv dist_id"
    by (auto dest: argv_of_get_args)
  with Inr have a: "argv_of (get_args (JStr dist_id)) = Inr (get_argv dist_id)" by simp
  show ?thesis
    unfolding d(1)
    using d(2)
    by (auto simp: get_distribution_config_def subprocess_run_argv [OF a] calls_append
        trace_print trace_emit split: launch.splits sum.splits)
qed

lemma write_updated_config_calls:
  "write_updated_config w CERT_ARN config s = (r, s') \<Longrightarrow> calls (trace s') = calls (trace s)"
  by (auto simp: write_updated_config_def Let_def print_def emit_def write_file_def calls_append
      split: sum.splits option.splits)

lemma update_distribution_calls:
  "calls (trace (snd (update_distribution w (JStr dist_id) e s))) = calls (trace s)
   \<or> (\<exists>etag. e = JStr etag \<and> CHR 0x00 \<notin> set etag
        \<and> calls (trace (snd (update_distribution w (JStr dist_id) e s)))
            = calls (trace s) @ [update_argv dist_id etag])"
proof (cases "argv_of (update_args (JStr dist_id) e)")
  case (Inl ex)
  then show ?thesis
    by (simp add: update_distribution_def subprocess_run_def Let_def trace_print calls_append)
next
  case (Inr argv)
  then obtain etag where e: "e = JStr etag" "CHR 0x00 \<notin> set etag" "argv = update_argv dist_id etag"
    by (auto dest: argv_of_update_args)
  from Inr e have "CHR 0x00 \<notin> set dist_id"
    by (auto simp: update_args_def split: if_splits sum.splits)
  from update_distribution_trace [OF this e(2), of w s] obtain ls where
    "trace (snd (update_distribution w (JStr dist_id) (JStr etag) s))
       = trace s @ [Print updating_line, Run (update_argv dist_id etag)] @ map Print ls"
    by blast
  then have "calls (trace (snd (update_distribution w (JStr dist_id) (JStr etag) s)))
       = calls (trace s) @ [update_argv dist_id etag]"
    by (simp add: calls_append calls_prints)
  with e show ?thesis by blast
qed


lemma script_calls:
  "calls (trace (snd (script w))) = []
   \<or> calls (trace (snd (script w))) = [list_argv]
   \<or> (\<exists>CERT_ARN dist_id. listing_resolves w CERT_ARN (JStr dist_id)
         \<and> calls (trace (snd (script w))) = [list_argv, get_argv dist_id])
   \<or> (\<exists>CERT_ARN dist_id config etag. config_fetched w CERT_ARN dist_id config (JStr etag)
         \<and> calls (trace (snd (script w))) = [list_argv, get_argv dist_id, update_argv dist_id etag])"
proof (cases "environ w ''ACM_CERTIFICATE_ARN''")
  case None
  then show ?thesis
    by (simp add: script_def missing_certificate_def trace_print)
next
  case (Some CERT_ARN)
  show ?thesis
  proof (cases "CERT_ARN = []")
    case True
    with Some show ?thesis
      by (simp add: script_def missing_certificate_def trace_print)
  next
    case False
    let ?s3 = "\<lparr>trace = events_of_banner CERT_ARN, files = files0 w\<rparr>"
    have s3: "script w = (case get_distribution_id w ?s3 of
           (Inl halt, s4) \<Rightarrow> (halt, s4)
         | (Inr dist_id, s4) \<Rightarrow>
             (case get_distribution_config w dist_id s4 of
                (Inl halt, s5) \<Rightarrow> (halt, s5)
              | (Inr (config, etag), s5) \<Rightarrow>
                  (case write_updated_config w CERT_ARN config s5 of
                     (Inl halt, s6) \<Rightarrow> (halt, s6)
                   | (Inr config', s6) \<Rightarrow> update_distribution w dist_id etag s6)))"
      by (simp add: script_with_certificate [OF Some False] update_with_def Let_def
          events_of_banner_def print_def emit_def)
    have c3: "calls (events_of_banner CERT_ARN) = []"
      by (simp add: events_of_banner_def)
    note cs = trace_print trace_emit calls_append c3
    from get_distribution_id_cases [of w ?s3] show ?thesis
    proof (elim disjE exE conjE)
      fix s'
      assume "get_distribution_id w ?s3 = (Inl (SysExit 1), s')"
        "calls (trace s') = calls (trace ?s3) @ [list_argv]"
      then show ?thesis by (simp add: s3 c3)
    next
      fix d out err
      let ?s4 = "print (found_line d) (emit (Run list_argv) ?s3)"
      assume l: "get_distribution_id w ?s3 = (Inr d, ?s4)"
        "aws w list_argv (files ?s3) = Finished 0 out err" "resolve w out = Inr d" "truthy d"
      have lr: "listing_resolves w CERT_ARN d"
        using Some False l(2,3) by (simp add: listing_resolves_def)
      from get_distribution_config_cases [of w d ?s4] show ?thesis
      proof (elim disjE exE conjE)
        fix s'
        assume "get_distribution_config w d ?s4 = (Inl (SysExit 1), s')"
          "calls (trace s') = calls (trace ?s4)"
        then show ?thesis using l(1) by (simp add: s3 cs)
      next
        fix s' dist_id
        assume "get_distribution_config w d ?s4 = (Inl (SysExit 1), s')"
          "d = JStr dist_id" "calls (trace s') = calls (trace ?s4) @ [get_argv dist_id]"
        then have "listing_resolves w CERT_ARN (JStr dist_id)
            \<and> calls (trace (snd (script w))) = [list_argv, get_argv dist_id]"
          using l(1) lr by (simp add: s3 cs)
        then show ?thesis by blast
      next
        fix dist_id config etag out2 err2
        let ?s5 = "print (retrieved_line etag) (emit (Run (get_argv dist_id)) ?s4)"
        assume g: "d = JStr dist_id" "CHR 0x00 \<notin> set dist_id"
          "get_distribution_config w d ?s4 = (Inr (config, etag), ?s5)"
          "aws w (get_argv dist_id) (files ?s4) = Finished 0 out2 err2"
          "fetched w out2 = Inr (config, etag)"
        have lr': "listing_resolves w CERT_ARN (JStr dist_id)"
          using lr g(1) by simp
        have cf: "config_fetched w CERT_ARN dist_id config etag"
          using lr' g(2,4,5) l(4) g(1) by (simp add: config_fetched_def files_print files_emit)
        obtain r s6 where wr: "write_updated_config w CERT_ARN config ?s5 = (r, s6)"
          by (cases "write_updated_config w CERT_ARN config ?s5")
        from write_updated_config_calls [OF wr]
        have c6: "calls (trace s6) = [list_argv, get_argv dist_id]" by (simp add: cs)
        show ?thesis
        proof (cases r)
          case (Inl halt)
          then have "calls (trace (snd (script w))) = [list_argv, get_argv dist_id]"
            using l(1) g(3) wr c6 by (simp add: s3)
          with lr' show ?thesis by blast
        next
          case (Inr config')
          then have run: "script w = update_distribution w (JStr dist_id) etag s6"
            using l(1) g(1,3) wr by (simp add: s3)
          from update_distribution_calls [of w dist_id etag s6] show ?thesis
          proof (elim disjE exE conjE)
            assume "calls (trace (snd (update_distribution w (JStr dist_id) etag s6)))
                = calls (trace s6)"
            then have "calls (trace (snd (script w))) = [list_argv, get_argv dist_id]"
              by (simp add: run c6)
            with lr' show ?thesis by blast
          next
            fix e
            assume "etag = JStr e" "CHR 0x00 \<notin> set e"
              "calls (trace (snd (update_distribution w (JStr dist_id) etag s6)))
                = calls (trace s6) @ [update_argv dist_id e]"
            then have "config_fetched w CERT_ARN dist_id config (JStr e)
              \<and> calls (trace (snd (script w))) = [list_argv, get_argv dist_id, update_argv dist_id e]"
              using cf by (simp add: run c6)
            then show ?thesis by blast
          qed
        qed
      qed
    qed
  qed
qed

section \<open>The update command of lines 88 to 100\<close>

text \<open>
  Claim C6. In a run that found the identifier \<open>dist_id\<close> and fetched a configuration
  document together with the string \<open>etag\<close> as its \<^verbatim>\<open>ETag\<close>, the commands started are the
  listing, the fetch and then the update, and the update command carries \<open>dist_id\<close>
  after \<^verbatim>\<open>--id\<close> and \<open>etag\<close>, as it was fetched, after \<^verbatim>\<open>--if-match\<close>. And in any run at
  all, an \<^verbatim>\<open>update-distribution\<close> command that is started carries the identifier the
  resolver returned and the \<^verbatim>\<open>ETag\<close> the fetch returned.
\<close>

theorem update_call_arguments:
  "(config_fetched w CERT_ARN dist_id (JDict kvs) (JStr etag) \<and> CHR 0x00 \<notin> set etag
      \<and> open_w w tmp_path = None \<longrightarrow>
    calls (trace (snd (script w)))
      = [list_argv,
         get_argv dist_id,
         [''aws'', ''cloudfront'', ''update-distribution'',
          ''--id'', dist_id,
          ''--distribution-config'', ''file:///tmp/dist-config-updated.json'',
          ''--if-match'', etag,
          ''--output'', ''json'']])
   \<and> (\<forall>argv. argv \<in> set (calls (trace (snd (script w)))) \<and> argv ! 2 = ''update-distribution'' \<longrightarrow>
          (\<exists>arn d config e. config_fetched w arn d config (JStr e)
             \<and> argv = [''aws'', ''cloudfront'', ''update-distribution'',
                       ''--id'', d,
                       ''--distribution-config'', ''file:///tmp/dist-config-updated.json'',
                       ''--if-match'', e,
                       ''--output'', ''json'']))"
proof -
  have issued: "calls (trace (snd (script w))) = [list_argv, get_argv dist_id, update_argv dist_id etag]"
    if h: "config_fetched w CERT_ARN dist_id (JDict kvs) (JStr etag) \<and> CHR 0x00 \<notin> set etag
      \<and> open_w w tmp_path = None"
  proof -
    let ?s = "\<lparr>trace = events_until_fetched CERT_ARN dist_id (JStr etag) @ events_of_mutation
                 @ [Write tmp_path (json_dumps w (JDict (dict_set ''Aliases'' (aliases DOMAIN_NAMES)
                     (dict_set ''ViewerCertificate'' (viewer_certificate CERT_ARN) kvs))))],
         files = (files0 w)(tmp_path \<mapsto> json_dumps w (JDict (dict_set ''Aliases'' (aliases DOMAIN_NAMES)
                     (dict_set ''ViewerCertificate'' (viewer_certificate CERT_ARN) kvs))))\<rparr>"
    from h have f: "config_fetched w CERT_ARN dist_id (JDict kvs) (JStr etag)"
      and z: "CHR 0x00 \<notin> set etag" and o: "open_w w tmp_path = None"
      by simp_all
    have run: "script w = update_distribution w (JStr dist_id) (JStr etag) ?s"
      by (rule script_reaches_update [OF f mutate_config_dict o])
    from config_fetched_dist_id [OF f] have "CHR 0x00 \<notin> set dist_id" by simp
    from update_distribution_trace [OF this z, of w ?s] obtain ls where
      "trace (snd (update_distribution w (JStr dist_id) (JStr etag) ?s))
         = trace ?s @ [Print updating_line, Run (update_argv dist_id etag)] @ map Print ls"
      by blast
    then show ?thesis
      unfolding run
      by (simp add: calls_append calls_prints calls_until_fetched calls_of_mutation)
  qed
  have only: "\<exists>arn d config e. config_fetched w arn d config (JStr e) \<and> argv = update_argv d e"
    if h: "argv \<in> set (calls (trace (snd (script w)))) \<and> argv ! 2 = ''update-distribution''"
    for argv
  proof -
    from script_calls [of w] consider
        (none) "calls (trace (snd (script w))) = []"
      | (listed) "calls (trace (snd (script w))) = [list_argv]"
      | (fetched) d where "calls (trace (snd (script w))) = [list_argv, get_argv d]"
      | (updated) arn d config e where "config_fetched w arn d config (JStr e)"
          "calls (trace (snd (script w))) = [list_argv, get_argv d, update_argv d e]"
      by blast
    then show ?thesis
    proof cases
      case none
      with h show ?thesis by simp
    next
      case listed
      with h show ?thesis by (auto simp: list_argv_def)
    next
      case fetched
      with h show ?thesis by (auto simp: list_argv_def get_argv_def)
    next
      case updated
      with h have "argv = update_argv d e" by (auto simp: list_argv_def get_argv_def)
      with updated(1) show ?thesis by blast
    qed
  qed
  from issued only show ?thesis
    unfolding update_argv_def tmp_path_def by simp
qed

text \<open>The whole run of the scenario.\<close>

lemma scenario_script:
  "script scenario =
     (Completed,
      \<lparr>trace = events_until_fetched scenario_arn ''E123'' (JStr ''E_OLD'') @ events_of_mutation @
         [Write tmp_path ''dist-config-updated.json'',
          Print updating_line,
          Run (update_argv ''E123'' ''E_OLD''),
          Print [Lit check_mark, Lit '' Distribution updated successfully!''],
          Print [Lit [CHR 0x0A], Lit bar_chart, Lit '' Distribution details:''],
          Print [Lit ''   ID: '', Val (JStr ''E123'')],
          Print [Lit ''   Domain: '', Val (JStr ''d123.cloudfront.net'')],
          Print [Lit ''   Aliases: '',
                 Val (JList [JStr ''itsonlycastlesburning.com'', JStr ''*.itsonlycastlesburning.com''])],
          Print [Lit ''   Certificate: '', Val (JStr ''abc'')],
          Print [Lit ([CHR 0x0A] @ hourglass @ '' Status: ''), Val (JStr ''InProgress'')],
          Print [Lit [CHR 0x0A], Lit memo, Lit '' Next steps:''],
          Print [Lit ''   1. Add CNAME records in your DNS provider:''],
          Print [Lit ''      '', Val (JStr ''itsonlycastlesburning.com''),
                 Lit ('' '' @ rightwards_arrow @ '' ''), Val (JStr ''d123.cloudfront.net'')],
          Print [Lit ''      '', Val (JStr ''*.itsonlycastlesburning.com''),
                 Lit ('' '' @ rightwards_arrow @ '' ''), Val (JStr ''d123.cloudfront.net'')],
          Print [Lit ''   2. Wait for DNS propagation (5-15 minutes)''],
          Print [Lit ''   3. Distribution will complete deployment (may take 10-15 minutes)'']],
       files = [tmp_path \<mapsto> ''dist-config-updated.json'']\<rparr>)"
proof -
  have m: "mutate_config scenario_arn DOMAIN_NAMES (JDict scenario_config) = Inr scenario_updated_config"
    by (simp add: mutate_config_def viewer_certificate_def aliases_def scenario_defs)
  have d: "json_dumps scenario scenario_updated_config = ''dist-config-updated.json''"
    by (simp add: scenario_def scenario_dumps_def)
  have f: "files0 scenario = Map.empty"
    by (simp add: scenario_def)
  have a: "argv_of (update_args (JStr ''E123'') (JStr ''E_OLD'')) = Inr (update_argv ''E123'' ''E_OLD'')"
    by (rule argv_of_update) simp_all
  have u: "aws scenario (update_argv ''E123'' ''E_OLD'') [tmp_path \<mapsto> ''dist-config-updated.json'']
      = Finished 0 ''update-distribution.out'' []"
    by (simp add: scenario_defs)
  have l: "loads scenario ''update-distribution.out'' = Inr scenario_updated"
    by (simp add: loads_def scenario_def scenario_loads_def)
  show ?thesis
    unfolding script_reaches_update [OF scenario_fetched m scenario_open] d f
    by (simp add: update_distribution_def Let_def subprocess_run_argv [OF a] files_print u
        report_def report_lines_def l scenario_updated_def scenario_updated_config_def scenario_arn_def
        last_segment_def DOMAIN_NAMES_def print_def emit_def)
qed

theorem update_call_arguments_witness:
  "config_fetched scenario scenario_arn ''E123'' (JDict scenario_config) (JStr ''E_OLD'')
   \<and> CHR 0x00 \<notin> set ''E_OLD''
   \<and> open_w scenario tmp_path = None
   \<and> calls (trace (snd (script scenario)))
       = [[''aws'', ''cloudfront'', ''list-distributions'', ''--output'', ''json''],
          [''aws'', ''cloudfront'', ''get-distribution-config'', ''--id'', ''E123'', ''--output'', ''json''],
          [''aws'', ''cloudfront'', ''update-distribution'',
           ''--id'', ''E123'',
           ''--distribution-config'', ''file:///tmp/dist-config-updated.json'',
           ''--if-match'', ''E_OLD'',
           ''--output'', ''json'']]"
proof -
  have etag: "CHR 0x00 \<notin> set ''E_OLD''" by simp
  from update_call_arguments [where w = scenario and CERT_ARN = scenario_arn
      and dist_id = "''E123''" and kvs = scenario_config and etag = "''E_OLD''"]
    scenario_fetched etag scenario_open
  have "calls (trace (snd (script scenario)))
      = [list_argv, get_argv ''E123'',
         [''aws'', ''cloudfront'', ''update-distribution'',
          ''--id'', ''E123'',
          ''--distribution-config'', ''file:///tmp/dist-config-updated.json'',
          ''--if-match'', ''E_OLD'',
          ''--output'', ''json'']]"
    by blast
  with scenario_fetched etag scenario_open show ?thesis
    by (simp add: list_argv_def get_argv_def)
qed

text \<open>
  Claim C8. In a run that fetched a configuration document, the serialized mutated
  document is written to \<^verbatim>\<open>/tmp/dist-config-updated.json\<close> after the mutation; the update
  step starts right after that write, in a state where the file holds the document, and
  its command (the next thing started, after one printed line) names that path. Whatever
  the update step does then, success or failure, the file is still there with the same
  content when the program ends.
\<close>

theorem temporary_file_written_and_kept:
  assumes "config_fetched w CERT_ARN dist_id (JDict kvs) etag"
    and "open_w w tmp_path = None"
  shows "\<exists>config'.
      mutate_config CERT_ARN DOMAIN_NAMES (JDict kvs) = Inr config'
    \<and> script w = update_distribution w (JStr dist_id) etag
         \<lparr>trace = events_until_fetched CERT_ARN dist_id etag @ events_of_mutation
                   @ [Write ''/tmp/dist-config-updated.json'' (json_dumps w config')],
          files = (files0 w)(''/tmp/dist-config-updated.json'' \<mapsto> json_dumps w config')\<rparr>
    \<and> files (snd (script w)) = (files0 w)(''/tmp/dist-config-updated.json'' \<mapsto> json_dumps w config')
    \<and> (\<forall>e. etag = JStr e \<and> CHR 0x00 \<notin> set e \<longrightarrow>
          (\<exists>ls. trace (snd (script w)) =
             events_until_fetched CERT_ARN dist_id etag @ events_of_mutation
             @ [Write ''/tmp/dist-config-updated.json'' (json_dumps w config'),
                Print updating_line,
                Run [''aws'', ''cloudfront'', ''update-distribution'',
                     ''--id'', dist_id,
                     ''--distribution-config'', ''file:///tmp/dist-config-updated.json'',
                     ''--if-match'', e,
                     ''--output'', ''json'']]
             @ map Print ls))"
proof -
  let ?config' = "JDict (dict_set ''Aliases'' (aliases DOMAIN_NAMES)
                   (dict_set ''ViewerCertificate'' (viewer_certificate CERT_ARN) kvs))"
  let ?s = "\<lparr>trace = events_until_fetched CERT_ARN dist_id etag @ events_of_mutation
               @ [Write tmp_path (json_dumps w ?config')],
       files = (files0 w)(tmp_path \<mapsto> json_dumps w ?config')\<rparr>"
  have m: "mutate_config CERT_ARN DOMAIN_NAMES (JDict kvs) = Inr ?config'"
    by (rule mutate_config_dict)
  have run: "script w = update_distribution w (JStr dist_id) etag ?s"
    by (rule script_reaches_update [OF assms(1) m assms(2)])
  have kept: "files (snd (script w)) = (files0 w)(tmp_path \<mapsto> json_dumps w ?config')"
    unfolding run by (simp add: update_distribution_files)
  have order: "\<exists>ls. trace (snd (script w)) =
             events_until_fetched CERT_ARN dist_id etag @ events_of_mutation
             @ [Write tmp_path (json_dumps w ?config'), Print updating_line,
                Run (update_argv dist_id e)]
             @ map Print ls"
    if e: "etag = JStr e \<and> CHR 0x00 \<notin> set e" for e
  proof -
    from config_fetched_dist_id [OF assms(1)] have "CHR 0x00 \<notin> set dist_id" by simp
    from update_distribution_trace [OF this, of e w ?s] e obtain ls where
      "trace (snd (update_distribution w (JStr dist_id) (JStr e) ?s))
         = trace ?s @ [Print updating_line, Run (update_argv dist_id e)] @ map Print ls"
      by blast
    then have "trace (snd (script w)) =
             events_until_fetched CERT_ARN dist_id etag @ events_of_mutation
             @ [Write tmp_path (json_dumps w ?config'), Print updating_line,
                Run (update_argv dist_id e)]
             @ map Print ls"
      unfolding run using e by simp
    then show ?thesis by blast
  qed
  from m run kept order show ?thesis
    unfolding tmp_path_def update_argv_def by (simp del: fun_upd_apply)
qed


theorem temporary_file_written_and_kept_witness:
  "config_fetched scenario scenario_arn ''E123'' (JDict scenario_config) (JStr ''E_OLD'')
   \<and> open_w scenario tmp_path = None
   \<and> mutate_config scenario_arn DOMAIN_NAMES (JDict scenario_config) = Inr scenario_updated_config
   \<and> json_dumps scenario scenario_updated_config = ''dist-config-updated.json''
   \<and> files (snd (script scenario)) = [''/tmp/dist-config-updated.json'' \<mapsto> ''dist-config-updated.json'']
   \<and> (\<exists>ls. trace (snd (script scenario)) =
          events_until_fetched scenario_arn ''E123'' (JStr ''E_OLD'') @ events_of_mutation
          @ [Write ''/tmp/dist-config-updated.json'' ''dist-config-updated.json'',
             Print updating_line,
             Run [''aws'', ''cloudfront'', ''update-distribution'',
                  ''--id'', ''E123'',
                  ''--distribution-config'', ''file:///tmp/dist-config-updated.json'',
                  ''--if-match'', ''E_OLD'',
                  ''--output'', ''json'']]
          @ map Print ls)"
proof -
  have m: "mutate_config scenario_arn DOMAIN_NAMES (JDict scenario_config) = Inr scenario_updated_config"
    by (simp add: mutate_config_def viewer_certificate_def aliases_def scenario_defs)
  have d: "json_dumps scenario scenario_updated_config = ''dist-config-updated.json''"
    by (simp add: scenario_def scenario_dumps_def)
  have f: "files0 scenario = Map.empty"
    by (simp add: scenario_def)
  have e: "JStr ''E_OLD'' = JStr ''E_OLD'' \<and> CHR 0x00 \<notin> set ''E_OLD''"
    by simp
  from temporary_file_written_and_kept [OF scenario_fetched scenario_open] obtain config' where
    c: "mutate_config scenario_arn DOMAIN_NAMES (JDict scenario_config) = Inr config'"
    and k: "files (snd (script scenario))
        = (files0 scenario)(''/tmp/dist-config-updated.json'' \<mapsto> json_dumps scenario config')"
    and t: "\<forall>e. JStr ''E_OLD'' = JStr e \<and> CHR 0x00 \<notin> set e \<longrightarrow>
          (\<exists>ls. trace (snd (script scenario)) =
             events_until_fetched scenario_arn ''E123'' (JStr ''E_OLD'') @ events_of_mutation
             @ [Write ''/tmp/dist-config-updated.json'' (json_dumps scenario config'),
                Print updating_line,
                Run [''aws'', ''cloudfront'', ''update-distribution'',
                     ''--id'', ''E123'',
                     ''--distribution-config'', ''file:///tmp/dist-config-updated.json'',
                     ''--if-match'', e,
                     ''--output'', ''json'']]
             @ map Print ls)"
    by blast
  from c m have c': "config' = scenario_updated_config" by simp
  from t e have "\<exists>ls. trace (snd (script scenario)) =
             events_until_fetched scenario_arn ''E123'' (JStr ''E_OLD'') @ events_of_mutation
             @ [Write ''/tmp/dist-config-updated.json'' (json_dumps scenario config'),
                Print updating_line,
                Run [''aws'', ''cloudfront'', ''update-distribution'',
                     ''--id'', ''E123'',
                     ''--distribution-config'', ''file:///tmp/dist-config-updated.json'',
                     ''--if-match'', ''E_OLD'',
                     ''--output'', ''json'']]
             @ map Print ls"
    by blast
  with k m d show ?thesis
    unfolding c' d f using scenario_fetched scenario_open by blast
qed

section \<open>Failures\<close>

text \<open>
  When the report of lines 101 to 115 raises after an update command that returned 0,
  the handler of line 120 prints the message of the exception and the program ends with
  exit status 1.
\<close>

lemma raising_report_exits:
  assumes "config_fetched w CERT_ARN dist_id (JDict kvs) (JStr etag)"
    and "CHR 0x00 \<notin> set etag"
    and "open_w w tmp_path = None"
    and "mutate_config CERT_ARN DOMAIN_NAMES (JDict kvs) = Inr config'"
    and "aws w (update_argv dist_id etag) ((files0 w)(tmp_path \<mapsto> json_dumps w config'))
           = Finished 0 out err"
    and "fst (report w out s) = Some e"
  shows "fst (script w) = SysExit 1
       \<and> exit_status (fst (script w)) = 1
       \<and> Run (update_argv dist_id etag) \<in> set (trace (snd (script w)))
       \<and> last (trace (snd (script w))) = Print ([Lit cross_mark, Lit '' Error: ''] @ str_exn e)"
proof -
  let ?s = "\<lparr>trace = events_until_fetched CERT_ARN dist_id (JStr etag) @ events_of_mutation
               @ [Write tmp_path (json_dumps w config')],
       files = (files0 w)(tmp_path \<mapsto> json_dumps w config')\<rparr>"
  let ?s2 = "emit (Run (update_argv dist_id etag)) (print updating_line ?s)"
  have run: "script w = update_distribution w (JStr dist_id) (JStr etag) ?s"
    by (rule script_reaches_update [OF assms(1) assms(4) assms(3)])
  from config_fetched_dist_id [OF assms(1)] have "CHR 0x00 \<notin> set dist_id" by simp
  then have a: "argv_of (update_args (JStr dist_id) (JStr etag)) = Inr (update_argv dist_id etag)"
    using assms(2) by (rule argv_of_update)
  from assms(6) have "fst (report w out ?s2) = Some e"
    using report_state [of w out s ?s2] by simp
  moreover obtain r s3 where r: "report w out ?s2 = (r, s3)"
    by (cases "report w out ?s2")
  ultimately have r': "report w out ?s2 = (Some e, s3)" by simp
  from report_effect [of w out ?s2] r' obtain ls where
    s3: "trace s3 = trace ?s2 @ map Print ls" by auto
  from report_raises_other [OF assms(6)] obtain cls msg where
    e: "e = OtherException cls msg" by blast
  have "script w = (SysExit 1, print (update_error e) s3)"
    unfolding run
    by (simp add: update_distribution_def Let_def subprocess_run_argv [OF a] files_print assms(5) r')
  then show ?thesis
    by (simp add: e trace_print s3 trace_emit)
qed

text \<open>A reply that cannot be parsed or lacks a field the report reads makes it raise.\<close>

lemma labelled_isl: "isl x \<Longrightarrow> isl (labelled prefix x)"
  by (cases x) simp_all

lemma split_last_isl: "isl x \<Longrightarrow> isl (split_last x)"
  by (cases x) simp_all

lemma lacks_field_report_lines:
  assumes "lacks_field updated"
  shows "list_ex isl (report_lines updated)"
proof -
  from assms consider
      "isl (subscripts updated [''Distribution'', ''Id''])"
    | "isl (subscripts updated [''Distribution'', ''DomainName''])"
    | "isl (subscripts updated [''Distribution'', ''DistributionConfig'', ''Aliases'', ''Items''])"
    | "isl (subscripts updated
         [''Distribution'', ''DistributionConfig'', ''ViewerCertificate'', ''ACMCertificateArn''])"
    | "isl (subscripts updated [''Distribution'', ''Status''])"
    unfolding lacks_field_def expected_fields_def
    by (auto simp del: subscripts.simps)
  then show ?thesis
  proof cases
    case 1
    then show ?thesis
      unfolding report_lines_def by (simp del: subscripts.simps add: labelled_isl)
  next
    case 2
    then show ?thesis
      unfolding report_lines_def by (simp del: subscripts.simps add: labelled_isl)
  next
    case 3
    then show ?thesis
      unfolding report_lines_def by (simp del: subscripts.simps add: labelled_isl)
  next
    case 4
    then show ?thesis
      unfolding report_lines_def by (simp del: subscripts.simps add: labelled_isl split_last_isl)
  next
    case 5
    then show ?thesis
      unfolding report_lines_def by (simp del: subscripts.simps add: labelled_isl)
  qed
qed

lemma run_stmts_raises:
  "list_ex isl xs \<Longrightarrow> \<exists>e. fst (run_stmts (map say xs) s) = Some e"
proof (induction xs arbitrary: s)
  case Nil
  then show ?case by simp
next
  case (Cons x xs)
  show ?case
  proof (cases x)
    case (Inl e)
    then show ?thesis by simp
  next
    case (Inr line)
    with Cons.prems have "list_ex isl xs" by simp
    from Cons.IH [OF this, of "print line s"] Inr show ?thesis by simp
  qed
qed

lemma unusable_reply_raises:
  assumes "reply_unusable w out"
  shows "\<exists>e. fst (report w out s) = Some e"
proof (cases "loads w out")
  case (Inl e)
  then show ?thesis by (simp add: report_def)
next
  case (Inr updated)
  with assms have "lacks_field updated" by (simp add: reply_unusable_def)
  then have "list_ex isl (report_lines updated)" by (rule lacks_field_report_lines)
  from run_stmts_raises [OF this, of s] Inr show ?thesis by (simp add: report_def)
qed

lemma unparsable_reply_raises:
  "loads w out = Inl e \<Longrightarrow> fst (report w out s) = Some e"
  by (simp add: report_def)

lemma reply_without_distribution_raises:
  "loads w out = Inr updated \<Longrightarrow> subscript updated ''Distribution'' = Inl e \<Longrightarrow>
     fst (report w out s) = Some e"
  by (simp add: report_def report_lines_def)

text \<open>
  Claim C10. The update command ran with return code 0, so the distribution has been
  changed, and its reply cannot be parsed or lacks a field the report reads
  (\<^verbatim>\<open>Distribution\<close>, say): then the report of lines 101 to 115 raises, the handler of
  line 120 prints the message of the exception (the parser's message, or the missing
  key), and the program ends with exit status 1, the update command being among the
  commands it ran.
\<close>

theorem exit_1_after_successful_update:
  assumes "config_fetched w CERT_ARN dist_id (JDict kvs) (JStr etag)"
    and "CHR 0x00 \<notin> set etag"
    and "open_w w tmp_path = None"
    and "mutate_config CERT_ARN DOMAIN_NAMES (JDict kvs) = Inr config'"
    and "aws w (update_argv dist_id etag) ((files0 w)(tmp_path \<mapsto> json_dumps w config'))
           = Finished 0 out err"
    and "reply_unusable w out"
  shows "\<exists>e. fst (report w out s) = Some e
       \<and> fst (script w) = SysExit 1
       \<and> exit_status (fst (script w)) = 1
       \<and> Run (update_argv dist_id etag) \<in> set (trace (snd (script w)))
       \<and> last (trace (snd (script w))) = Print ([Lit cross_mark, Lit '' Error: ''] @ str_exn e)
       \<and> (\<forall>e'. loads w out = Inl e' \<longrightarrow> e = e')
       \<and> (\<forall>updated e'. loads w out = Inr updated \<and> subscript updated ''Distribution'' = Inl e'
             \<longrightarrow> e = e')"
proof -
  from unusable_reply_raises [OF assms(6), of s] obtain e where
    r: "fst (report w out s) = Some e" by blast
  note halts = raising_report_exits [OF assms(1-5) r]
  have "e = e'" if "loads w out = Inl e'" for e'
    using unparsable_reply_raises [OF that, of s] r by simp
  moreover have "e = e'"
    if "loads w out = Inr updated \<and> subscript updated ''Distribution'' = Inl e'" for updated e'
    using reply_without_distribution_raises [of w out updated e' s] that r by simp
  ultimately show ?thesis using r halts by blast
qed

theorem exit_1_after_successful_update_witness:
  "aws scenario_short_reply (update_argv ''E123'' ''E_OLD'')
       ((files0 scenario_short_reply)(tmp_path \<mapsto> json_dumps scenario_short_reply scenario_updated_config))
     = Finished 0 ''update-distribution.out'' []
   \<and> loads scenario_short_reply ''update-distribution.out'' = Inr (JDict [(''ETag'', JStr ''E_NEW'')])
   \<and> reply_unusable scenario_short_reply ''update-distribution.out''
   \<and> fst (script scenario_short_reply) = SysExit 1
   \<and> Run (update_argv ''E123'' ''E_OLD'') \<in> set (trace (snd (script scenario_short_reply)))
   \<and> last (trace (snd (script scenario_short_reply)))
       = Print [Lit cross_mark, Lit '' Error: '', Lit (apostrophe @ ''Distribution'' @ apostrophe)]
   \<and> loads scenario_garbled ''update-distribution.out''
       = Inl (OtherException ''JSONDecodeError'' ''Expecting value: line 1 column 1 (char 0)'')
   \<and> reply_unusable scenario_garbled ''update-distribution.out''
   \<and> fst (script scenario_garbled) = SysExit 1
   \<and> Run (update_argv ''E123'' ''E_OLD'') \<in> set (trace (snd (script scenario_garbled)))
   \<and> last (trace (snd (script scenario_garbled)))
       = Print [Lit cross_mark, Lit '' Error: '', Lit ''Expecting value: line 1 column 1 (char 0)'']"
proof -
  let ?s = "\<lparr>trace = [], files = Map.empty\<rparr>"
  let ?e = "OtherException ''KeyError'' (apostrophe @ ''Distribution'' @ apostrophe)"
  let ?e' = "OtherException ''JSONDecodeError'' ''Expecting value: line 1 column 1 (char 0)''"
  have etag: "CHR 0x00 \<notin> set ''E_OLD''" by simp
  have m: "mutate_config scenario_arn DOMAIN_NAMES (JDict scenario_config) = Inr scenario_updated_config"
    by (simp add: mutate_config_def viewer_certificate_def aliases_def scenario_defs)
  have fetched: "config_fetched scenario_short_reply scenario_arn ''E123'' (JDict scenario_config)
      (JStr ''E_OLD'')"
    by (simp add: config_fetched_def listing_resolves_def resolve_def loads_def fetched_def
        scenario_short_reply_def scenario_defs)
  have opened: "open_w scenario_short_reply tmp_path = None"
    by (simp add: scenario_short_reply_def scenario_def)
  have u: "aws scenario_short_reply (update_argv ''E123'' ''E_OLD'')
       ((files0 scenario_short_reply)(tmp_path \<mapsto> json_dumps scenario_short_reply scenario_updated_config))
     = Finished 0 ''update-distribution.out'' []"
    by (simp add: scenario_short_reply_def scenario_defs)
  have l: "loads scenario_short_reply ''update-distribution.out'' = Inr (JDict [(''ETag'', JStr ''E_NEW'')])"
    by (simp add: loads_def scenario_short_reply_def)
  have d: "subscript (JDict [(''ETag'', JStr ''E_NEW'')]) ''Distribution'' = Inl ?e"
    by (simp add: apostrophe_def)
  have r: "reply_unusable scenario_short_reply ''update-distribution.out''"
    by (simp add: reply_unusable_def l lacks_field_def expected_fields_def)
  from exit_1_after_successful_update [OF fetched etag opened m u r, of ?s] l d
  have short: "fst (script scenario_short_reply) = SysExit 1
     \<and> Run (update_argv ''E123'' ''E_OLD'') \<in> set (trace (snd (script scenario_short_reply)))
     \<and> last (trace (snd (script scenario_short_reply)))
         = Print ([Lit cross_mark, Lit '' Error: ''] @ str_exn ?e)"
    by blast
  have fetched': "config_fetched scenario_garbled scenario_arn ''E123'' (JDict scenario_config)
      (JStr ''E_OLD'')"
    by (simp add: config_fetched_def listing_resolves_def resolve_def loads_def fetched_def
        scenario_garbled_def scenario_defs)
  have opened': "open_w scenario_garbled tmp_path = None"
    by (simp add: scenario_garbled_def scenario_def)
  have u': "aws scenario_garbled (update_argv ''E123'' ''E_OLD'')
       ((files0 scenario_garbled)(tmp_path \<mapsto> json_dumps scenario_garbled scenario_updated_config))
     = Finished 0 ''update-distribution.out'' []"
    by (simp add: scenario_garbled_def scenario_defs)
  have l': "loads scenario_garbled ''update-distribution.out'' = Inl ?e'"
    by (simp add: loads_def scenario_garbled_def)
  have r': "reply_unusable scenario_garbled ''update-distribution.out''"
    by (simp add: reply_unusable_def l')
  from exit_1_after_successful_update [OF fetched' etag opened' m u' r', of ?s] l'
  have garbled: "fst (script scenario_garbled) = SysExit 1
     \<and> Run (update_argv ''E123'' ''E_OLD'') \<in> set (trace (snd (script scenario_garbled)))
     \<and> last (trace (snd (script scenario_garbled)))
         = Print ([Lit cross_mark, Lit '' Error: ''] @ str_exn ?e')"
    by blast
  from short garbled u l l' r r' show ?thesis by simp
qed

text \<open>
  What a failing command leaves behind, for each of the three commands: the program
  ends with exit status 1 and starts nothing after the command that failed. The handlers
  of the listing and of the fetch print \<^verbatim>\<open>str(e)\<close>; only the handler of the update
  prints the captured error stream.
\<close>

lemma script_listing_fails:
  assumes "environ w ''ACM_CERTIFICATE_ARN'' = Some CERT_ARN" and "CERT_ARN \<noteq> []"
    and "aws w list_argv (files0 w) = Finished returncode out err" and "returncode \<noteq> 0"
  shows "script w = (SysExit 1,
           \<lparr>trace = events_of_banner CERT_ARN
               @ [Run list_argv,
                  Print (listing_error (CalledProcessError returncode list_argv out err))],
            files = files0 w\<rparr>)"
  using assms(4)
  by (simp add: script_with_certificate [OF assms(1,2)] update_with_def Let_def
      get_distribution_id_def subprocess_run_argv [OF argv_of_list] files_print assms(3)
      events_of_banner_def print_def emit_def)

lemma script_fetch_fails:
  assumes "listing_resolves w CERT_ARN (JStr dist_id)" and "dist_id \<noteq> []"
    and "CHR 0x00 \<notin> set dist_id"
    and "aws w (get_argv dist_id) (files0 w) = Finished returncode out err" and "returncode \<noteq> 0"
  shows "script w = (SysExit 1,
           \<lparr>trace = events_of_banner CERT_ARN
               @ [Run list_argv, Print (found_line (JStr dist_id)), Run (get_argv dist_id),
                  Print (config_error (CalledProcessError returncode (get_argv dist_id) out err))],
            files = files0 w\<rparr>)"
proof -
  from assms(1) obtain out1 err1 where
    env: "environ w ''ACM_CERTIFICATE_ARN'' = Some CERT_ARN" "CERT_ARN \<noteq> []"
    and l: "aws w list_argv (files0 w) = Finished 0 out1 err1" "resolve w out1 = Inr (JStr dist_id)"
    by (auto simp: listing_resolves_def split: launch.splits)
  show ?thesis
    using assms(2,5)
    by (simp add: script_with_certificate [OF env] update_with_def Let_def
        get_distribution_id_found [OF _ l(2)] l(1)
        get_distribution_config_def subprocess_run_argv [OF argv_of_get [OF assms(3)]]
        files_print files_emit assms(4)
        events_of_banner_def print_def emit_def)
qed

lemma script_update_fails:
  assumes "config_fetched w CERT_ARN dist_id config (JStr etag)"
    and "CHR 0x00 \<notin> set etag"
    and "mutate_config CERT_ARN DOMAIN_NAMES config = Inr config'"
    and "open_w w tmp_path = None"
    and "aws w (update_argv dist_id etag) ((files0 w)(tmp_path \<mapsto> json_dumps w config'))
           = Finished returncode out err"
    and "returncode \<noteq> 0"
  shows "script w = (SysExit 1,
           \<lparr>trace = events_until_fetched CERT_ARN dist_id (JStr etag) @ events_of_mutation
               @ [Write tmp_path (json_dumps w config'), Print updating_line,
                  Run (update_argv dist_id etag),
                  Print [Lit cross_mark, Lit '' Error updating distribution: '', Val (JStr err)]],
            files = (files0 w)(tmp_path \<mapsto> json_dumps w config')\<rparr>)"
proof -
  from config_fetched_dist_id [OF assms(1)] have "CHR 0x00 \<notin> set dist_id" by simp
  then have a: "argv_of (update_args (JStr dist_id) (JStr etag)) = Inr (update_argv dist_id etag)"
    using assms(2) by (rule argv_of_update)
  show ?thesis
    unfolding script_reaches_update [OF assms(1,3,4)]
    using assms(6)
    by (simp add: update_distribution_def Let_def subprocess_run_argv [OF a] files_print assms(5)
        print_def emit_def)
qed

text \<open>
  Claim C7, on a listing command that fails with return code 254 and a message on its
  error stream: the program ends with exit status 1 and has started that one command
  only, and the line it prints names the command and the return code; the captured
  error stream is not printed.
\<close>

theorem listing_failure_hides_error_stream:
  "aws scenario_denied list_argv (files0 scenario_denied) = Finished 254 [] access_denied
   \<and> script scenario_denied =
       (SysExit 1,
        \<lparr>trace = events_of_banner scenario_arn
            @ [Run list_argv,
               Print [Lit cross_mark, Lit '' Error listing distributions: '',
                      Lit (''Command '' @ apostrophe),
                      Val (JList [JStr ''aws'', JStr ''cloudfront'', JStr ''list-distributions'',
                                  JStr ''--output'', JStr ''json'']),
                      Lit (apostrophe @ '' returned non-zero exit status ''),
                      Val (JInt 254),
                      Lit ''.'']],
         files = Map.empty\<rparr>)
   \<and> calls (trace (snd (script scenario_denied))) = [list_argv]"
proof -
  have env: "environ scenario_denied ''ACM_CERTIFICATE_ARN'' = Some scenario_arn" "scenario_arn \<noteq> []"
    by (simp_all add: scenario_denied_def scenario_def scenario_arn_def)
  have run: "aws scenario_denied list_argv (files0 scenario_denied) = Finished 254 [] access_denied"
    by (simp add: scenario_denied_def scenario_def)
  have fs: "files0 scenario_denied = Map.empty"
    by (simp add: scenario_denied_def scenario_def)
  have "script scenario_denied = (SysExit 1,
           \<lparr>trace = events_of_banner scenario_arn
               @ [Run list_argv,
                  Print (listing_error (CalledProcessError 254 list_argv [] access_denied))],
            files = files0 scenario_denied\<rparr>)"
    by (rule script_listing_fails [OF env run]) simp
  then show ?thesis
    using run by (simp add: fs listing_error_def list_argv_def events_of_banner_def)
qed

end
